theory Spec2Isabelle
  imports
    Complex_Main
    "HOL-Library.Char_ord"
    "HOL-Library.List_Lexorder"
    "HOL-Library.Product_Lexorder"
    "HOL-Library.Sublist"
begin

section \<open>Conventions of the embedding\<close>

text \<open>
  The Python sources compute with floats and unbounded ints. Every number is embedded as
  an exact rational (\<^typ>\<open>rat\<close>): the theorems below are about the arithmetic the code
  writes down, not about IEEE rounding. The floats that come from the market data may
  also be infinite or NaN; they have a type of their own. Strings are \<^typ>\<open>string\<close>
  and are compared as Python compares ASCII strings (lexicographically by code point).
  A naive \<open>datetime\<close> is the number of microseconds since 1 January 1970, 0:00, a
  \<open>timedelta(days=n)\<close> is \<open>n\<close> times the microseconds of a day, and
  \<open>datetime.now()\<close> is an explicit argument of every function that reads the clock.
\<close>

section \<open>Configuration (config/config.py)\<close>

definition UNUSED_BALANCE_THRESHOLD :: rat where
  "UNUSED_BALANCE_THRESHOLD = 1 / 2"

definition MIN_INVESTMENT_AMOUNT :: rat where
  "MIN_INVESTMENT_AMOUNT = 100"

definition MAX_INVESTMENT_AMOUNT :: rat where
  "MAX_INVESTMENT_AMOUNT = 10000"

section \<open>The ledger (src/mock_portfolio.py)\<close>

text \<open>
  A transaction is the dict that \<open>add_transaction\<close> and the generators append to
  \<open>self.transactions\<close>. \<open>shares\<close> is a Python number: an integer count for a
  purchase or sale, and a cash amount for a dividend.
\<close>

record transaction =
  tx_id :: string
  tx_symbol :: string
  tx_action :: string
  tx_shares :: rat
  tx_price :: rat
  tx_timestamp :: int
  tx_total_value :: rat

record mock_portfolio =
  initial_cash :: rat
  cash_balance :: rat
  holdings :: "string \<rightharpoonup> rat"
  transactions :: "transaction list"

definition microseconds_per_day :: int where
  "microseconds_per_day = 86400 * 1000000"

definition timedelta_days :: "int \<Rightarrow> int" where
  "timedelta_days n = n * microseconds_per_day"

text \<open>\<open>timestamp.date()\<close>: the calendar day of a naive datetime, as a day number.\<close>

definition date_of :: "int \<Rightarrow> int" where
  "date_of ts = ts div microseconds_per_day"

text \<open>
  \<open>timestamp.isocalendar().week\<close> of a day number: the week of the Thursday of the
  day's week, counted within the civil year of that Thursday.
\<close>

definition weekday :: "int \<Rightarrow> int" where
  "weekday d = (d + 3) mod 7"

definition year_of_day :: "int \<Rightarrow> int" where
  "year_of_day d =
     (let z = d + 719468;
          era = z div 146097;
          doe = z mod 146097;
          yoe = (doe - doe div 1460 + doe div 36524 - doe div 146096) div 365;
          doy = doe - (365 * yoe + yoe div 4 - yoe div 100);
          mp = (5 * doy + 2) div 153
      in yoe + era * 400 + (if mp < 10 then 0 else 1))"

definition first_day_of_year :: "int \<Rightarrow> int" where
  "first_day_of_year y =
     (let y1 = y - 1;
          era = y1 div 400;
          yoe = y1 mod 400
      in era * 146097 + (yoe * 365 + yoe div 4 - yoe div 100 + 306) - 719468)"

definition iso_week :: "int \<Rightarrow> int" where
  "iso_week d =
     (let thursday = d - weekday d + 3
      in (thursday - first_day_of_year (year_of_day thursday)) div 7 + 1)"

text \<open>\<open>str(n)\<close> for a natural number, used by the f-string of the transaction id.\<close>

definition digit_char :: "nat \<Rightarrow> char" where
  "digit_char d = char_of (48 + d)"

function str_nat :: "nat \<Rightarrow> string" where
  "str_nat n = (if n < 10 then [digit_char n] else str_nat (n div 10) @ [digit_char (n mod 10)])"
  by pat_completeness auto
termination
  by (relation "measure (\<lambda>n. n)") auto

declare str_nat.simps [simp del]

text \<open>\<open>mock_prices.get(symbol, 100.0)\<close>\<close>

definition mock_prices :: "(string \<times> rat) list" where
  "mock_prices =
     [(''AAPL'', 351 / 2), (''MSFT'', 1521 / 4), (''GOOGL'', 563 / 4), (''TSLA'', 2453 / 10),
      (''SPY'', 2254 / 5), (''NVDA'', 4376 / 5), (''AMZN'', 777 / 5), (''META'', 2428 / 5),
      (''NFLX'', 4259 / 10), (''AMD'', 2847 / 20)]"

definition get_mock_price :: "string \<Rightarrow> rat" where
  "get_mock_price symbol = (case map_of mock_prices symbol of Some p \<Rightarrow> p | None \<Rightarrow> 100)"

definition get_cash_balance :: "mock_portfolio \<Rightarrow> rat" where
  "get_cash_balance self = cash_balance self"

definition update_cash_balance :: "mock_portfolio \<Rightarrow> rat \<Rightarrow> mock_portfolio" where
  "update_cash_balance self new_balance = self\<lparr>cash_balance := new_balance\<rparr>"

text \<open>\<open>self.holdings.get(symbol, 0)\<close>\<close>

definition holdings_get :: "mock_portfolio \<Rightarrow> string \<Rightarrow> rat" where
  "holdings_get self symbol = (case holdings self symbol of Some h \<Rightarrow> h | None \<Rightarrow> 0)"

text \<open>
  \<open>add_transaction(symbol, action, shares, price=None)\<close>. The method mutates the
  portfolio and returns nothing; the model returns the portfolio after the call.
  \<open>now\<close> is the value of \<open>datetime.now()\<close> read for the timestamp.
\<close>

definition add_transaction ::
  "mock_portfolio \<Rightarrow> string \<Rightarrow> string \<Rightarrow> rat \<Rightarrow> rat option \<Rightarrow> int \<Rightarrow> mock_portfolio" where
  "add_transaction self symbol action shares price_arg now =
     (let price = (case price_arg of None \<Rightarrow> get_mock_price symbol | Some p \<Rightarrow> p);
          total_value = (if action \<in> set [''buy'', ''sell''] then shares * price else shares);
          transaction = \<lparr>tx_id = ''manual_'' @ str_nat (length (transactions self)),
                         tx_symbol = symbol, tx_action = action, tx_shares = shares,
                         tx_price = price, tx_timestamp = now, tx_total_value = total_value\<rparr>;
          self1 = self\<lparr>transactions := transactions self @ [transaction]\<rparr>
      in if action = ''buy'' then
           self1\<lparr>cash_balance := cash_balance self1 - total_value,
                  holdings := (holdings self1)(symbol \<mapsto> holdings_get self1 symbol + shares)\<rparr>
         else if action = ''sell'' then
           self1\<lparr>cash_balance := cash_balance self1 + total_value,
                  holdings := (holdings self1)(symbol \<mapsto> max 0 (holdings_get self1 symbol - shares))\<rparr>
         else if action = ''dividend'' then
           self1\<lparr>cash_balance := cash_balance self1 + total_value\<rparr>
         else self1)"

text \<open>
  \<open>get_transaction_history(days)\<close>: the transactions with
  \<open>now - timedelta(days) \<le> timestamp \<le> now\<close>, in log order (the rows of the DataFrame).
\<close>

definition get_transaction_history :: "mock_portfolio \<Rightarrow> int \<Rightarrow> int \<Rightarrow> transaction list" where
  "get_transaction_history self days now =
     (let end_date = now;
          start_date = end_date - timedelta_days days
      in filter (\<lambda>tx. start_date \<le> tx_timestamp tx \<and> tx_timestamp tx \<le> end_date)
           (transactions self))"

text \<open>
  \<open>frame.groupby(key)['total_value'].sum()\<close>: one sum per distinct key, keys ascending.
  \<open>series.mean()\<close> is only called on a non-empty series.
\<close>

definition groupby_sum :: "(transaction \<Rightarrow> 'k::linorder) \<Rightarrow> transaction list \<Rightarrow> rat list" where
  "groupby_sum key txs =
     map (\<lambda>k. sum_list (map tx_total_value (filter (\<lambda>tx. key tx = k) txs)))
       (sort (remdups (map key txs)))"

definition mean :: "rat list \<Rightarrow> rat" where
  "mean xs = sum_list xs / of_nat (length xs)"

record spending_pattern =
  daily_average :: rat
  weekly_average :: rat
  monthly_average :: rat

text \<open>
  \<open>calculate_spending_patterns(days=30)\<close>. The frame of the history is empty exactly
  when no transaction lies in the window.
\<close>

definition calculate_spending_patterns ::
  "mock_portfolio \<Rightarrow> int \<Rightarrow> int \<Rightarrow> spending_pattern option" where
  "calculate_spending_patterns self days now =
     (let txs = get_transaction_history self days now
      in if txs = [] then None
         else
           let spending_transactions =
                 filter (\<lambda>tx. tx_action tx = ''buy'' \<or> tx_action tx = ''dividend_reinvest'') txs
           in if spending_transactions = [] then
                Some \<lparr>daily_average = 50, weekly_average = 350, monthly_average = 1500\<rparr>
              else
                let daily_spending =
                      groupby_sum (\<lambda>tx. date_of (tx_timestamp tx)) spending_transactions;
                    weekly_spending =
                      groupby_sum (\<lambda>tx. iso_week (date_of (tx_timestamp tx))) spending_transactions
                in Some \<lparr>daily_average = (if daily_spending \<noteq> [] then mean daily_spending else 150),
                         weekly_average = (if weekly_spending \<noteq> [] then mean weekly_spending else 1050),
                         monthly_average =
                           (if daily_spending \<noteq> [] then mean daily_spending * 30 else 4500)\<rparr>)"

section \<open>Idle funds (src/investment_analyzer.py, identify_unused_funds)\<close>

record unused_funds_result =
  total_balance :: rat
  uf_monthly_average :: rat
  unused_funds :: rat
  threshold :: rat
  available_for_investment :: rat

text \<open>
  \<open>unused_funds_from\<close> is the body of \<open>identify_unused_funds\<close> after its two reads of
  the portfolio monitor: \<open>current_balance\<close> and \<open>spending_patterns\<close> (\<open>None\<close> when
  no pattern was returned; a returned pattern is a dict of three entries, hence truthy).
  \<open>safety_net_of\<close> is the local \<open>safety_net\<close> of that body, which is not a key of the
  returned dict.
\<close>

definition safety_net_of :: "spending_pattern option \<Rightarrow> rat" where
  "safety_net_of spending_patterns =
     (case spending_patterns of None \<Rightarrow> 1500 | Some sp \<Rightarrow> monthly_average sp) * 1"

definition unused_funds_from :: "rat \<Rightarrow> spending_pattern option \<Rightarrow> unused_funds_result option" where
  "unused_funds_from current_balance spending_patterns =
     (let monthly_average_v =
            (case spending_patterns of None \<Rightarrow> 1500 | Some sp \<Rightarrow> monthly_average sp);
          threshold_v = monthly_average_v * (1 + UNUSED_BALANCE_THRESHOLD);
          safety_net = monthly_average_v * 1;
          unused = current_balance - safety_net
      in if unused \<ge> MIN_INVESTMENT_AMOUNT then
           Some \<lparr>total_balance = current_balance, uf_monthly_average = monthly_average_v,
                  unused_funds = unused, threshold = threshold_v,
                  available_for_investment = unused\<rparr>
         else None)"

definition identify_unused_funds ::
  "mock_portfolio \<Rightarrow> int \<Rightarrow> unused_funds_result option" where
  "identify_unused_funds portfolio now =
     (let current_balance = get_cash_balance portfolio;
          spending_patterns = calculate_spending_patterns portfolio 30 now
      in unused_funds_from current_balance spending_patterns)"

section \<open>News sentiment (src/news_analyzer.py)\<close>

datatype error = ServiceError | IndexError | LookupFailed | OverflowError | ValueError

text \<open>
  One entry of \<open>result['items']\<close> of the search service. Every key may be absent.
  \<open>raw_metatags\<close> is \<open>item['pagemap']['metatags']\<close> when both keys are present, each
  metatag dict being reduced to its \<open>article:published_time\<close> entry.
\<close>

record raw_item =
  raw_title :: "string option"
  raw_snippet :: "string option"
  raw_link :: "string option"
  raw_displayLink :: "string option"
  raw_metatags :: "string option list option"

record search_request =
  rq_q :: string
  rq_cx :: "string option"
  rq_num :: nat
  rq_dateRestrict :: string
  rq_sort :: string

text \<open>
  The search service is \<open>None\<close> when the API is not configured. A call of
  \<open>cse().list(...).execute()\<close> raises or returns a dict, which is reduced to its entry
  \<open>items\<close> (\<open>None\<close> when the dict has no such key).
\<close>

record news_analyzer =
  search_engine_id :: "string option"
  service :: "(search_request \<Rightarrow> error + raw_item list option) option"

record news_item =
  ni_title :: string
  ni_snippet :: string
  ni_link :: string
  ni_source :: string
  ni_date :: string

definition get_or :: "'a option \<Rightarrow> 'a \<Rightarrow> 'a" where
  "get_or v d = (case v of Some x \<Rightarrow> x | None \<Rightarrow> d)"

text \<open>
  \<open>item.get('pagemap', {}).get('metatags', [{}])[0].get('article:published_time', '')\<close>:
  indexing an empty metatag list raises.
\<close>

definition published_time :: "raw_item \<Rightarrow> error + string" where
  "published_time item =
     (case get_or (raw_metatags item) [None] of
        [] \<Rightarrow> Inl IndexError
      | m # _ \<Rightarrow> Inr (get_or m []))"

fun convert_items :: "raw_item list \<Rightarrow> error + news_item list" where
  "convert_items [] = Inr []"
| "convert_items (item # items) =
     (case published_time item of
        Inl e \<Rightarrow> Inl e
      | Inr d \<Rightarrow>
          (case convert_items items of
             Inl e \<Rightarrow> Inl e
           | Inr rest \<Rightarrow>
               Inr (\<lparr>ni_title = get_or (raw_title item) [],
                      ni_snippet = get_or (raw_snippet item) [],
                      ni_link = get_or (raw_link item) [],
                      ni_source = get_or (raw_displayLink item) [],
                      ni_date = d\<rparr> # rest)))"

text \<open>
  \<open>search_stock_news(symbol, company_name=None, days_back=7)\<close>. Without a service the
  method returns the empty list at once; any exception of the search or of the
  conversion of its items is caught and gives the empty list as well.
\<close>

definition search_stock_news ::
  "news_analyzer \<Rightarrow> string \<Rightarrow> string option \<Rightarrow> nat \<Rightarrow> news_item list" where
  "search_stock_news self symbol company_name days_back =
     (case service self of
        None \<Rightarrow> []
      | Some svc \<Rightarrow>
          (let company_term =
                 (case company_name of None \<Rightarrow> symbol
                  | Some c \<Rightarrow> if c = [] then symbol else c);
               query = symbol @ '' '' @ company_term @ '' stock news'';
               date_restrict = ''d'' @ str_nat days_back
           in case svc \<lparr>rq_q = query, rq_cx = search_engine_id self, rq_num = 10,
                         rq_dateRestrict = date_restrict, rq_sort = ''date''\<rparr> of
                Inl e \<Rightarrow> []
              | Inr result \<Rightarrow>
                  (case result of
                     None \<Rightarrow> []
                   | Some items \<Rightarrow>
                       (case convert_items items of Inl e \<Rightarrow> [] | Inr news_items \<Rightarrow> news_items))))"

definition positive_keywords :: "string list" where
  "positive_keywords =
     [''growth'', ''profit'', ''gain'', ''rise'', ''increase'', ''bullish'', ''optimistic'',
      ''strong'', ''beat'', ''exceed'', ''outperform'', ''upgrade'', ''buy'', ''positive'',
      ''rally'', ''surge'', ''boom'', ''recovery'', ''expansion'']"

definition negative_keywords :: "string list" where
  "negative_keywords =
     [''loss'', ''decline'', ''fall'', ''drop'', ''bearish'', ''pessimistic'', ''weak'',
      ''miss'', ''underperform'', ''downgrade'', ''sell'', ''negative'', ''crash'',
      ''plunge'', ''recession'', ''crisis'', ''concern'', ''risk'', ''volatility'']"

text \<open>\<open>str.lower()\<close> on ASCII text, and the substring test \<open>keyword in text\<close>.\<close>

definition lower_char :: "char \<Rightarrow> char" where
  "lower_char c =
     (if CHR ''A'' \<le> c \<and> c \<le> CHR ''Z'' then char_of (of_char c + (32::nat)) else c)"

definition lower :: "string \<Rightarrow> string" where
  "lower s = map lower_char s"

fun contains :: "string \<Rightarrow> string \<Rightarrow> bool" where
  "contains [] kw = (kw = [])"
| "contains (c # cs) kw = (prefix kw (c # cs) \<or> contains cs kw)"

record item_score =
  is_title :: string
  is_sentiment :: string
  is_score :: rat
  is_source :: string

record sentiment_analysis =
  overall_sentiment :: string
  average_score :: rat
  individual_scores :: "item_score list"
  sa_total_articles :: nat

text \<open>The body of the loop of \<open>analyze_sentiment\<close> for one news item.\<close>

definition score_item :: "news_item \<Rightarrow> item_score" where
  "score_item item =
     (let text = lower (ni_title item @ '' '' @ ni_snippet item);
          positive_count = int (length (filter (contains text) positive_keywords));
          negative_count = int (length (filter (contains text) negative_keywords))
      in if positive_count > negative_count then
           \<lparr>is_title = ni_title item, is_sentiment = ''positive'',
            is_score = of_int (min (positive_count - negative_count) 5) / 5,
            is_source = ni_source item\<rparr>
         else if negative_count > positive_count then
           \<lparr>is_title = ni_title item, is_sentiment = ''negative'',
            is_score = - of_int (min (negative_count - positive_count) 5) / 5,
            is_source = ni_source item\<rparr>
         else
           \<lparr>is_title = ni_title item, is_sentiment = ''neutral'', is_score = 0,
            is_source = ni_source item\<rparr>)"

definition analyze_sentiment :: "news_item list \<Rightarrow> sentiment_analysis" where
  "analyze_sentiment news_items =
     (let sentiment_scores = map score_item news_items
      in if sentiment_scores \<noteq> [] then
           (let avg_score = sum_list (map is_score sentiment_scores)
                              / of_nat (length sentiment_scores)
            in \<lparr>overall_sentiment =
                   (if avg_score > 1 / 5 then ''positive''
                    else if avg_score < - (1 / 5) then ''negative''
                    else ''neutral''),
                 average_score = avg_score,
                 individual_scores = sentiment_scores,
                 sa_total_articles = length sentiment_scores\<rparr>)
         else
           \<lparr>overall_sentiment = ''neutral'', average_score = 0,
            individual_scores = sentiment_scores,
            sa_total_articles = length sentiment_scores\<rparr>)"

record news_summary =
  ns_symbol :: string
  ns_news_available :: bool
  ns_sentiment :: string
  ns_sentiment_score :: rat
  ns_total_articles :: nat
  ns_recent_headlines :: "string list"
  ns_summary :: string

text \<open>
  \<open>get_stock_news_summary(symbol, company_name=None)\<close>; the search runs with
  \<open>days_back\<close> at its default 7.
\<close>

definition get_stock_news_summary :: "news_analyzer \<Rightarrow> string \<Rightarrow> string option \<Rightarrow> news_summary" where
  "get_stock_news_summary self symbol company_name =
     (let news_items = search_stock_news self symbol company_name 7
      in if news_items = [] then
           \<lparr>ns_symbol = symbol, ns_news_available = False, ns_sentiment = ''neutral'',
            ns_sentiment_score = 0, ns_total_articles = 0, ns_recent_headlines = [],
            ns_summary = ''No recent news found''\<rparr>
         else
           (let sa = analyze_sentiment news_items;
                recent_headlines = map ni_title (take 3 news_items)
            in \<lparr>ns_symbol = symbol, ns_news_available = True,
                 ns_sentiment = overall_sentiment sa,
                 ns_sentiment_score = average_score sa,
                 ns_total_articles = sa_total_articles sa,
                 ns_recent_headlines = recent_headlines,
                 ns_summary = ''Found '' @ str_nat (length news_items)
                                @ '' recent articles with ''
                                @ overall_sentiment sa @ '' sentiment''\<rparr>))"

section \<open>Suggestions (src/investment_analyzer.py)\<close>

subsection \<open>Floats of the market data\<close>

text \<open>
  A price, a return or a volatility is a float that may be infinite or NaN. Its finite
  values are exact rationals, as everywhere; the special values follow IEEE 754 as numpy
  applies it to \<open>float64\<close>: no operation raises, a division by zero gives an infinity
  or NaN, and NaN compares false with everything. Zero has one sign, the positive one.
\<close>

datatype pyfloat = Finite rat | PosInf | NegInf | NaN

fun float_neg :: "pyfloat \<Rightarrow> pyfloat" where
  "float_neg (Finite a) = Finite (- a)"
| "float_neg PosInf = NegInf"
| "float_neg NegInf = PosInf"
| "float_neg NaN = NaN"

fun float_sub :: "pyfloat \<Rightarrow> pyfloat \<Rightarrow> pyfloat" where
  "float_sub (Finite a) (Finite b) = Finite (a - b)"
| "float_sub (Finite a) PosInf = NegInf"
| "float_sub (Finite a) NegInf = PosInf"
| "float_sub PosInf (Finite b) = PosInf"
| "float_sub PosInf NegInf = PosInf"
| "float_sub NegInf (Finite b) = NegInf"
| "float_sub NegInf PosInf = NegInf"
| "float_sub x y = NaN"

fun float_div :: "pyfloat \<Rightarrow> pyfloat \<Rightarrow> pyfloat" where
  "float_div (Finite a) (Finite b) =
     (if b \<noteq> 0 then Finite (a / b)
      else if a > 0 then PosInf else if a < 0 then NegInf else NaN)"
| "float_div (Finite a) PosInf = Finite 0"
| "float_div (Finite a) NegInf = Finite 0"
| "float_div PosInf (Finite b) = (if b \<ge> 0 then PosInf else NegInf)"
| "float_div NegInf (Finite b) = (if b \<ge> 0 then NegInf else PosInf)"
| "float_div x y = NaN"

fun float_mul :: "pyfloat \<Rightarrow> pyfloat \<Rightarrow> pyfloat" where
  "float_mul (Finite a) (Finite b) = Finite (a * b)"
| "float_mul (Finite a) PosInf = (if a > 0 then PosInf else if a < 0 then NegInf else NaN)"
| "float_mul (Finite a) NegInf = (if a > 0 then NegInf else if a < 0 then PosInf else NaN)"
| "float_mul PosInf (Finite b) = (if b > 0 then PosInf else if b < 0 then NegInf else NaN)"
| "float_mul NegInf (Finite b) = (if b > 0 then NegInf else if b < 0 then PosInf else NaN)"
| "float_mul PosInf PosInf = PosInf"
| "float_mul PosInf NegInf = NegInf"
| "float_mul NegInf PosInf = NegInf"
| "float_mul NegInf NegInf = PosInf"
| "float_mul x y = NaN"

text \<open>The comparisons \<open><\<close> and \<open>>=\<close> of two floats.\<close>

fun float_lt :: "pyfloat \<Rightarrow> pyfloat \<Rightarrow> bool" where
  "float_lt (Finite a) (Finite b) = (a < b)"
| "float_lt (Finite a) PosInf = True"
| "float_lt NegInf (Finite b) = True"
| "float_lt NegInf PosInf = True"
| "float_lt x y = False"

definition float_ge :: "pyfloat \<Rightarrow> pyfloat \<Rightarrow> bool" where
  "float_ge x y = (float_lt y x \<or> (x \<noteq> NaN \<and> x = y))"

subsection \<open>Market data\<close>

text \<open>
  What \<open>yf.Ticker(symbol)\<close> delivers for one symbol: the rows of \<open>history(period="30d")\<close>
  with their \<open>Close\<close> and \<open>Volume\<close> columns, and the entries of \<open>info\<close> that are read.
  \<open>td_volatility\<close> is the value of \<open>hist['Close'].pct_change().std() * np.sqrt(252)\<close>;
  the standard deviation and the square root are pandas' and numpy's and are taken as
  given. The provider as a whole is a function from symbols to an error (any exception
  of the three reads) or these data.
\<close>

record bar =
  bar_close :: pyfloat
  bar_volume :: rat

record ticker_info =
  longName :: "string option"
  info_sector :: "string option"
  info_industry :: "string option"
  marketCap :: "rat option"
  trailingPE :: "rat option"
  dividendYield :: "rat option"

record ticker_data =
  hist :: "bar list"
  td_volatility :: pyfloat
  info :: ticker_info

type_synonym market_data_provider = "string \<Rightarrow> error + ticker_data"

text \<open>Why the loop passes a symbol over: the history is empty, or the body raises.\<close>

datatype skip = HistEmpty | Raised error

subsection \<open>The stock universe\<close>

definition global_stocks :: "(string \<times> string list) list" where
  "global_stocks =
     [(''US_BlueChip'', [''AAPL'', ''MSFT'', ''GOOGL'', ''AMZN'', ''TSLA'', ''NVDA'', ''META'',
                         ''JPM'', ''JNJ'', ''PG'']),
      (''US_Growth'', [''PLTR'', ''ROKU'', ''SQ'', ''SHOP'', ''ZM'', ''NFLX'', ''AMD'', ''CRM'',
                       ''SNOW'', ''COIN'']),
      (''EU_BlueChip'', [''ASML'', ''SAP'', ''LVMH.PA'', ''NVO'', ''MC.PA'', ''OR.PA'', ''SAN.PA'',
                         ''TTE.PA'']),
      (''UK_BlueChip'', [''SHEL.L'', ''AZN.L'', ''ULVR.L'', ''BP.L'', ''VOD.L'', ''HSBA.L'']),
      (''Asia_BlueChip'', [''TSM'', ''BABA'', ''7203.T'', ''005930.KS'', ''TM'', ''6758.T'']),
      (''Canada_BlueChip'', [''SHOP.TO'', ''RY.TO'', ''TD.TO'', ''CNR.TO'', ''SU.TO'']),
      (''Australia_BlueChip'', [''CBA.AX'', ''BHP.AX'', ''CSL.AX'', ''WBC.AX''])]"

definition stocks_in :: "string \<Rightarrow> string list" where
  "stocks_in category_name = get_or (map_of global_stocks category_name) []"

definition stock_symbols :: "bool \<Rightarrow> string list" where
  "stock_symbols include_growth_stocks =
     stocks_in ''US_BlueChip'' @ take 4 (stocks_in ''EU_BlueChip'')
     @ take 3 (stocks_in ''UK_BlueChip'') @ take 4 (stocks_in ''Asia_BlueChip'')
     @ (if include_growth_stocks then
          stocks_in ''US_Growth'' @ take 3 (stocks_in ''Canada_BlueChip'')
          @ take 2 (stocks_in ''Australia_BlueChip'')
        else [])"

text \<open>
  The loop over \<open>global_stocks.items()\<close> that fixes \<open>stock_category\<close>, \<open>region\<close> and
  \<open>currency\<close> of a symbol: the first category that lists the symbol decides, and the
  initial values stay when none does.
\<close>

fun category_region_currency :: "(string \<times> string list) list \<Rightarrow> string \<Rightarrow> string \<times> string \<times> string" where
  "category_region_currency [] symbol = (''Blue Chip'', ''US'', ''USD'')"
| "category_region_currency ((category_name, stocks) # rest) symbol =
     (if symbol \<in> set stocks then
        (let stock_category = (if contains category_name ''Growth'' then ''Growth'' else ''Blue Chip'')
         in if contains category_name ''EU'' then (stock_category, ''Europe'', ''EUR'')
            else if contains category_name ''UK'' then (stock_category, ''UK'', ''GBP'')
            else if contains category_name ''Asia'' then (stock_category, ''Asia'', ''Local'')
            else if contains category_name ''Canada'' then (stock_category, ''Canada'', ''CAD'')
            else if contains category_name ''Australia'' then (stock_category, ''Australia'', ''AUD'')
            else (stock_category, ''US'', ''USD''))
      else category_region_currency rest symbol)"

subsection \<open>Risk level of a suggestion\<close>

text \<open>Lines 173 to 187 of the loop body: the base risk and the risk level.\<close>

definition base_risk_of :: "bool \<Rightarrow> string \<Rightarrow> rat" where
  "base_risk_of is_growth region_name =
     (let base_risk = 0;
          base_risk = (if is_growth then base_risk + 1 else base_risk);
          base_risk = (if region_name \<notin> set [''US'', ''UK''] then base_risk + 1 / 2 else base_risk)
      in base_risk)"

definition risk_level_of :: "rat \<Rightarrow> bool \<Rightarrow> string \<Rightarrow> string" where
  "risk_level_of vol is_growth region_name =
     (let base_risk = base_risk_of is_growth region_name
      in if vol < 2 / 10 then (if base_risk < 1 then ''low'' else ''medium'')
         else if vol < 3 / 10 then (if base_risk < 15 / 10 then ''medium'' else ''high'')
         else if vol < 5 / 10 then ''high''
         else ''extreme'')"

definition risk_warning_of :: "bool \<Rightarrow> string \<Rightarrow> string option" where
  "risk_warning_of is_growth region_name =
     (let warning = None;
          warning = (if is_growth then
                       Some ''Growth stocks can be volatile and may experience significant price swings.''
                     else warning);
          warning = (if region_name \<notin> set [''US'', ''UK''] then
                       Some (get_or warning []
                             @ '' International investments may involve currency and political risks.'')
                     else warning)
      in warning)"

text \<open>
  The risk level on the float that the volatility is. On a finite volatility it is
  \<open>risk_level_of\<close>. Positive infinity and NaN fail the three comparisons
  \<open>volatility < 0.2\<close>, \<open>< 0.3\<close>, \<open>< 0.5\<close> and end in the last branch; negative
  infinity passes the first.
\<close>

definition risk_level_float :: "pyfloat \<Rightarrow> bool \<Rightarrow> string \<Rightarrow> string" where
  "risk_level_float vol is_growth region_name =
     (case vol of
        Finite v \<Rightarrow> risk_level_of v is_growth region_name
      | NegInf \<Rightarrow> (if base_risk_of is_growth region_name < 1 then ''low'' else ''medium'')
      | PosInf \<Rightarrow> ''extreme''
      | NaN \<Rightarrow> ''extreme'')"

text \<open>
  \<open>int(x)\<close> truncates a finite float towards zero, raises \<open>OverflowError\<close> on an
  infinity and \<open>ValueError\<close> on NaN.
\<close>

definition py_int :: "pyfloat \<Rightarrow> error + int" where
  "py_int x =
     (case x of
        Finite q \<Rightarrow> Inr (if q \<ge> 0 then \<lfloor>q\<rfloor> else \<lceil>q\<rceil>)
      | PosInf \<Rightarrow> Inl OverflowError
      | NegInf \<Rightarrow> Inl OverflowError
      | NaN \<Rightarrow> Inl ValueError)"

subsection \<open>Building, sorting and enriching\<close>

text \<open>
  The dict of one suggestion. The last five fields are the keys that only
  \<open>enhance_suggestions_with_news\<close> sets; \<open>None\<close> stands for an absent key.
\<close>

record suggestion =
  sg_symbol :: string
  company_name :: string
  sg_price :: pyfloat
  currency :: string
  region :: string
  category :: string
  sector :: string
  industry :: string
  risk_level :: string
  daily_return :: pyfloat
  volatility :: pyfloat
  volume :: rat
  market_cap :: rat
  pe_ratio :: "string + rat"
  dividend_yield :: rat
  is_growth_stock :: bool
  risk_warning :: "string option"
  shares_affordable :: int
  investment_amount :: pyfloat
  news_sentiment :: "string option"
  news_score :: "rat option"
  news_available :: "bool option"
  recent_headlines :: "string list option"
  recommendation_strength :: "rat option"

text \<open>
  The body of the loop over the symbols, after the fetch. A history without rows is
  skipped by \<open>continue\<close>; a history of one row raises at \<open>iloc[-2]\<close>; the daily return
  is a float division, which does not raise: a zero close in the row before the last
  gives an infinite daily return, and a close that is infinite or NaN there gives NaN.
  \<open>int(amount_usd / current_price)\<close> raises when the current price is zero or NaN.
  \<open>amount_usd\<close> is a finite number.
\<close>

definition build_suggestion :: "rat \<Rightarrow> string \<Rightarrow> ticker_data \<Rightarrow> skip + suggestion" where
  "build_suggestion amount_usd symbol td =
     (if hist td = [] then Inl HistEmpty
      else if length (hist td) < 2 then Inl (Raised IndexError)
      else
        let current_price = bar_close (last (hist td));
            previous_close = bar_close (hist td ! (length (hist td) - 2));
            daily_return_v = float_div (float_sub current_price previous_close) previous_close;
            volatility_v = td_volatility td;
            (stock_category, region_v, currency_v) =
               category_region_currency global_stocks symbol;
            is_growth = (stock_category = ''Growth'');
            risk_level_v = risk_level_float volatility_v is_growth region_v;
            risk_warning_v = risk_warning_of is_growth region_v
        in case py_int (float_div (Finite amount_usd) current_price) of
             Inl e \<Rightarrow> Inl (Raised e)
           | Inr shares_affordable_v \<Rightarrow>
               Inr \<lparr>sg_symbol = symbol,
                     company_name = get_or (longName (info td)) symbol,
                     sg_price = current_price,
                     currency = currency_v,
                     region = region_v,
                     category = stock_category,
                     sector = get_or (info_sector (info td)) ''N/A'',
                     industry = get_or (info_industry (info td)) ''N/A'',
                     risk_level = risk_level_v,
                     daily_return = daily_return_v,
                     volatility = volatility_v,
                     volume = bar_volume (last (hist td)),
                     market_cap = get_or (marketCap (info td)) 0,
                     pe_ratio = (case trailingPE (info td) of None \<Rightarrow> Inl ''N/A'' | Some pe \<Rightarrow> Inr pe),
                     dividend_yield = get_or (dividendYield (info td)) 0,
                     is_growth_stock = is_growth,
                     risk_warning = risk_warning_v,
                     shares_affordable = shares_affordable_v,
                     investment_amount = float_mul (Finite (of_int shares_affordable_v)) current_price,
                     news_sentiment = None, news_score = None, news_available = None,
                     recent_headlines = None, recommendation_strength = None\<rparr>)"

text \<open>The loop itself: a symbol whose fetch or whose body raises is skipped.\<close>

fun collect_suggestions :: "market_data_provider \<Rightarrow> rat \<Rightarrow> string list \<Rightarrow> suggestion list" where
  "collect_suggestions yf amount_usd [] = []"
| "collect_suggestions yf amount_usd (symbol # symbols) =
     (case yf symbol of
        Inl e \<Rightarrow> collect_suggestions yf amount_usd symbols
      | Inr td \<Rightarrow>
          (case build_suggestion amount_usd symbol td of
             Inl e \<Rightarrow> collect_suggestions yf amount_usd symbols
           | Inr suggestion \<Rightarrow> suggestion # collect_suggestions yf amount_usd symbols))"

text \<open>
  \<open>suggestions.sort(key=lambda x: (-x['daily_return'], x['region'], x['risk_level']))\<close>.
  Python compares the key tuples lexicographically, the floats by \<open><\<close> and the two
  strings by code point, and the sort is stable. On floats other than NaN, \<open><\<close> is the
  linear order with negative infinity below and positive infinity above all finite
  values; \<open>sort_position\<close> renders it by pairs, and the sort is then \<^const>\<open>sort_key\<close>.
  NaN is neither below, equal to nor above any float. With a NaN among the keys the
  comparisons are not an order and the outcome of \<open>list.sort\<close> is whatever the sort
  algorithm of the interpreter makes of them: it is the parameter \<open>unordered\<close>.
\<close>

definition sort_position :: "pyfloat \<Rightarrow> int \<times> rat" where
  "sort_position x =
     (case x of NegInf \<Rightarrow> (- 1, 0) | Finite a \<Rightarrow> (0, a) | PosInf \<Rightarrow> (1, 0) | NaN \<Rightarrow> (2, 0))"

definition sort_key_of :: "suggestion \<Rightarrow> (int \<times> rat) \<times> string \<times> string" where
  "sort_key_of x = (sort_position (float_neg (daily_return x)), region x, risk_level x)"

definition list_sort ::
  "(suggestion list \<Rightarrow> suggestion list) \<Rightarrow> suggestion list \<Rightarrow> suggestion list" where
  "list_sort unordered suggestions =
     (if list_ex (\<lambda>x. float_neg (daily_return x) = NaN) suggestions then unordered suggestions
      else sort_key sort_key_of suggestions)"

text \<open>
  The body of the loop of \<open>enhance_suggestions_with_news\<close>. \<open>lookup\<close> is the call
  \<open>self.news_analyzer.get_stock_news_summary(symbol, company_name)\<close>: it returns a
  summary or raises, and the handler of the loop then writes the default news fields.
\<close>

definition enhance_suggestion ::
  "(string \<Rightarrow> string \<Rightarrow> error + news_summary) \<Rightarrow> suggestion \<Rightarrow> suggestion" where
  "enhance_suggestion lookup suggestion =
     (case lookup (sg_symbol suggestion) (company_name suggestion) of
        Inr summary \<Rightarrow>
          (let s1 = suggestion\<lparr>news_sentiment := Some (ns_sentiment summary),
                                news_score := Some (ns_sentiment_score summary),
                                news_available := Some (ns_news_available summary),
                                recent_headlines := Some (ns_recent_headlines summary)\<rparr>
           in if ns_sentiment summary = ''positive'' then
                s1\<lparr>recommendation_strength :=
                      Some (min (get_or (recommendation_strength s1) (5 / 10) + 1 / 10) 1)\<rparr>
              else if ns_sentiment summary = ''negative'' then
                s1\<lparr>recommendation_strength :=
                      Some (max (get_or (recommendation_strength s1) (5 / 10) - 1 / 10) 0)\<rparr>
              else s1)
      | Inl e \<Rightarrow>
          suggestion\<lparr>news_sentiment := Some ''neutral'', news_score := Some 0,
                      news_available := Some False, recent_headlines := Some []\<rparr>)"

definition enhance_suggestions_with_news ::
  "(string \<Rightarrow> string \<Rightarrow> error + news_summary) \<Rightarrow> suggestion list \<Rightarrow> suggestion list" where
  "enhance_suggestions_with_news lookup suggestions = map (enhance_suggestion lookup) suggestions"

text \<open>The lookup of an analyzer that holds the news analyzer \<open>na\<close>.\<close>

definition news_lookup :: "news_analyzer \<Rightarrow> string \<Rightarrow> string \<Rightarrow> error + news_summary" where
  "news_lookup na symbol name = Inr (get_stock_news_summary na symbol (Some name))"

text \<open>
  \<open>get_investment_suggestions(amount_usd, include_growth_stocks=False)\<close>. The refresh of
  the market overview at its start catches its own exceptions and does not touch the
  suggestions.
\<close>

definition get_investment_suggestions ::
  "(suggestion list \<Rightarrow> suggestion list) \<Rightarrow> market_data_provider \<Rightarrow> news_analyzer \<Rightarrow> rat \<Rightarrow> bool
     \<Rightarrow> suggestion list" where
  "get_investment_suggestions unordered yf na amount_usd include_growth_stocks =
     (let suggestions = collect_suggestions yf amount_usd (stock_symbols include_growth_stocks);
          suggestions = list_sort unordered suggestions
      in enhance_suggestions_with_news (news_lookup na) suggestions)"

section \<open>Notions used in the statements\<close>

subsection \<open>Ledger and spending\<close>

text \<open>The ledger invariant of the specification: no holding is negative.\<close>

definition holdings_nonneg :: "mock_portfolio \<Rightarrow> bool" where
  "holdings_nonneg self = (\<forall>h \<in> ran (holdings self). 0 \<le> h)"

text \<open>The qualifying actions of the spending estimate.\<close>

definition is_spending :: "transaction \<Rightarrow> bool" where
  "is_spending tx = (tx_action tx = ''buy'' \<or> tx_action tx = ''dividend_reinvest'')"

text \<open>The monthly average the idle-funds detector works with: 1500 without a pattern.\<close>

definition monthly_of :: "spending_pattern option \<Rightarrow> rat" where
  "monthly_of pat = (case pat of None \<Rightarrow> 1500 | Some sp \<Rightarrow> monthly_average sp)"

subsection \<open>Sample ledgers\<close>

definition ledger0 :: mock_portfolio where
  "ledger0 = \<lparr>initial_cash = 50000, cash_balance = 50000,
              holdings = [''AAPL'' \<mapsto> 5, ''MSFT'' \<mapsto> 3], transactions = []\<rparr>"

definition t0 :: int where
  "t0 = 1700000000000000"

definition sell_tx :: transaction where
  "sell_tx = \<lparr>tx_id = ''manual_0'', tx_symbol = ''AAPL'', tx_action = ''sell'', tx_shares = 2,
              tx_price = 150, tx_timestamp = t0, tx_total_value = 300\<rparr>"

definition buy_tx :: transaction where
  "buy_tx = \<lparr>tx_id = ''manual_0'', tx_symbol = ''AAPL'', tx_action = ''buy'', tx_shares = 2,
             tx_price = 150, tx_timestamp = t0, tx_total_value = 300\<rparr>"

definition ledger_with :: "transaction list \<Rightarrow> mock_portfolio" where
  "ledger_with txs = \<lparr>initial_cash = 50000, cash_balance = 10000,
                       holdings = [''AAPL'' \<mapsto> 5], transactions = txs\<rparr>"

subsection \<open>News and risk\<close>

text \<open>
  The summary that \<open>get_stock_news_summary\<close> returns for a symbol without news.
\<close>

definition no_news_summary :: "string \<Rightarrow> news_summary" where
  "no_news_summary symbol =
     \<lparr>ns_symbol = symbol, ns_news_available = False, ns_sentiment = ''neutral'',
      ns_sentiment_score = 0, ns_total_articles = 0, ns_recent_headlines = [],
      ns_summary = ''No recent news found''\<rparr>"



text \<open>
  The four risk levels.
\<close>

definition risk_labels :: "string set" where
  "risk_labels = {''low'', ''medium'', ''high'', ''extreme''}"

subsection \<open>Sample news analyzers\<close>

text \<open>
  An analyzer without a search service, and one whose service raises on every call.
\<close>

definition no_service :: news_analyzer where
  "no_service = \<lparr>search_engine_id = None, service = None\<rparr>"

definition failing_service :: news_analyzer where
  "failing_service = \<lparr>search_engine_id = Some ''cx'', service = Some (\<lambda>rq. Inl ServiceError)\<rparr>"

subsection \<open>Ranking and enrichment\<close>

text \<open>
  A suggestion without the keys that only the enrichment writes.
\<close>

definition without_news :: "suggestion \<Rightarrow> suggestion" where
  "without_news s = s\<lparr>news_sentiment := None, news_score := None, news_available := None,
                        recent_headlines := None, recommendation_strength := None\<rparr>"

text \<open>
  The order of two adjacent suggestions as the specification words it: by descending
  daily return, then by region, then by risk level in the order low, medium, high,
  extreme.
\<close>

definition risk_rank :: "string \<Rightarrow> nat" where
  "risk_rank level =
     (if level = ''low'' then 0 else if level = ''medium'' then 1
      else if level = ''high'' then 2 else 3)"

definition claimed_adjacent :: "suggestion \<Rightarrow> suggestion \<Rightarrow> bool" where
  "claimed_adjacent a b =
     (float_ge (daily_return a) (daily_return b)
      \<and> (daily_return a = daily_return b \<longrightarrow>
           region a \<le> region b
           \<and> (region a = region b \<longrightarrow> risk_rank (risk_level a) \<le> risk_rank (risk_level b))))"

text \<open>
  The order of two adjacent suggestions under the key of the sort: the third component
  compares the risk level as a string.
\<close>

definition code_adjacent :: "suggestion \<Rightarrow> suggestion \<Rightarrow> bool" where
  "code_adjacent a b =
     (float_ge (daily_return a) (daily_return b)
      \<and> (daily_return a = daily_return b \<longrightarrow>
           region a \<le> region b
           \<and> (region a = region b \<longrightarrow> risk_level a \<le> risk_level b)))"

subsection \<open>Sample market data\<close>

text \<open>
  A sort outcome for keys that are not ordered: the list as it is.
\<close>

definition as_given :: "suggestion list \<Rightarrow> suggestion list" where
  "as_given suggestions = suggestions"

text \<open>
  A provider that delivers three days of closes for AAPL (99, 100, 100) and for MSFT
  (194, 200, 200) and fails for every other symbol. Both daily returns are 0; the
  annualised volatilities, rounded to four places, are 0.1134 and 0.3472.
\<close>

definition cx_info :: ticker_info where
  "cx_info = \<lparr>longName = None, info_sector = None, info_industry = None, marketCap = None,
              trailingPE = None, dividendYield = None\<rparr>"

definition closes :: "pyfloat list \<Rightarrow> bar list" where
  "closes cs = map (\<lambda>c. \<lparr>bar_close = c, bar_volume = 1000\<rparr>) cs"

definition cx_provider :: market_data_provider where
  "cx_provider symbol =
     (if symbol = ''AAPL'' then
        Inr \<lparr>hist = closes [Finite 99, Finite 100, Finite 100],
             td_volatility = Finite (1134 / 10000), info = cx_info\<rparr>
      else if symbol = ''MSFT'' then
        Inr \<lparr>hist = closes [Finite 194, Finite 200, Finite 200],
             td_volatility = Finite (3472 / 10000), info = cx_info\<rparr>
      else Inl ServiceError)"

definition cx_output :: "suggestion list" where
  "cx_output = get_investment_suggestions as_given cx_provider no_service 1000 False"

definition cx_sorted :: "suggestion list" where
  "cx_sorted = sort_key sort_key_of (collect_suggestions cx_provider 1000 (stock_symbols False))"

text \<open>
  A provider with special values: a NaN close before the last for MSFT, a zero close
  before the last for AMZN, a zero last close for TSLA.
\<close>

definition special_provider :: market_data_provider where
  "special_provider symbol =
     (if symbol = ''AAPL'' then
        Inr \<lparr>hist = closes [Finite 100, Finite 101],
             td_volatility = NaN, info = cx_info\<rparr>
      else if symbol = ''MSFT'' then
        Inr \<lparr>hist = closes [NaN, Finite 100],
             td_volatility = NaN, info = cx_info\<rparr>
      else if symbol = ''GOOGL'' then
        Inr \<lparr>hist = closes [Finite 100, Finite 105],
             td_volatility = NaN, info = cx_info\<rparr>
      else if symbol = ''AMZN'' then
        Inr \<lparr>hist = closes [Finite 100, Finite 0, Finite 50],
             td_volatility = Finite 5, info = cx_info\<rparr>
      else if symbol = ''TSLA'' then
        Inr \<lparr>hist = closes [Finite 100, Finite 100, Finite 0],
             td_volatility = Finite 5, info = cx_info\<rparr>
      else Inl ServiceError)"

text \<open>
  A news lookup that raises for every symbol.
\<close>

definition failing_lookup :: "string \<Rightarrow> string \<Rightarrow> error + news_summary" where
  "failing_lookup symbol name = Inl LookupFailed"

section \<open>The ledger: purchases, sales and dividends\<close>

lemma holdings_nonneg_upd:
  assumes "holdings_nonneg self" and "0 \<le> v"
  shows "\<forall>h \<in> ran ((holdings self)(symbol \<mapsto> v)). 0 \<le> h"
proof
  fix h assume "h \<in> ran ((holdings self)(symbol \<mapsto> v))"
  then obtain k where k: "((holdings self)(symbol \<mapsto> v)) k = Some h"
    by (auto simp: ran_def)
  show "0 \<le> h"
  proof (cases "k = symbol")
    case True
    with k assms(2) show ?thesis by simp
  next
    case False
    with k have "holdings self k = Some h" by simp
    then have "h \<in> ran (holdings self)" by (rule ranI)
    with assms(1) show ?thesis by (simp add: holdings_nonneg_def)
  qed
qed

lemma holdings_get_nonneg:
  assumes "holdings_nonneg self"
  shows "0 \<le> holdings_get self symbol"
proof (cases "holdings self symbol")
  case None
  then show ?thesis by (simp add: holdings_get_def)
next
  case (Some h)
  then have "h \<in> ran (holdings self)" by (rule ranI)
  with assms Some show ?thesis by (simp add: holdings_get_def holdings_nonneg_def)
qed

lemma add_transaction_holdings:
  "holdings (add_transaction self symbol action s price_arg now) =
     (if action = ''buy'' then (holdings self)(symbol \<mapsto> holdings_get self symbol + s)
      else if action = ''sell'' then (holdings self)(symbol \<mapsto> max 0 (holdings_get self symbol - s))
      else holdings self)"
  by (simp add: add_transaction_def Let_def holdings_get_def)

lemma add_transaction_cash:
  "cash_balance (add_transaction self symbol action s (Some p) now) =
     (if action = ''buy'' then cash_balance self - s * p
      else if action = ''sell'' then cash_balance self + s * p
      else if action = ''dividend'' then cash_balance self + s
      else cash_balance self)"
  by (simp add: add_transaction_def Let_def)

lemma add_transaction_preserves_nonneg:
  assumes "holdings_nonneg self" and "0 \<le> s"
  shows "holdings_nonneg (add_transaction self symbol action s price_arg now)"
proof -
  have g: "0 \<le> holdings_get self symbol" using assms(1) by (rule holdings_get_nonneg)
  from g assms(2) have b: "0 \<le> holdings_get self symbol + s" by simp
  have m: "0 \<le> max 0 (holdings_get self symbol - s)" by simp
  show ?thesis
    unfolding holdings_nonneg_def add_transaction_holdings
    using holdings_nonneg_upd [OF assms(1) b, of symbol]
          holdings_nonneg_upd [OF assms(1) m, of symbol] assms(1)
    by (simp add: holdings_nonneg_def)
qed

lemma ledger0_nonneg: "holdings_nonneg ledger0"
  by (simp add: holdings_nonneg_def ledger0_def)

lemma sell_holdings_raw:
  "holdings (add_transaction self symbol ''sell'' s price_arg now) =
     (holdings self)(symbol \<mapsto> max 0 ((case holdings self symbol of Some h \<Rightarrow> h | None \<Rightarrow> 0) - s))"
  by (simp add: add_transaction_def Let_def holdings_get_def)

text \<open>
  Claim C5. On a ledger without negative holdings, a sale of \<open>s \<ge> 0\<close> shares of a symbol
  at price \<open>p\<close> sets the entry of that symbol in the holdings mapping to
  \<open>max 0 (h - s)\<close>, where \<open>h\<close> is the entry before the sale (0 when the symbol had
  none): \<open>h - s\<close> when enough is held and exactly 0 when more is sold than is held.
  The entries of all other symbols stay as they were. The cash balance grows by \<open>s * p\<close>
  with the requested \<open>s\<close> all the same. Every operation of the ledger (a transaction of
  any action with a share argument \<open>s \<ge> 0\<close>, and the overwrite of the cash balance) keeps
  all holdings non-negative.
\<close>

theorem sell_clamps_holdings:
  assumes "holdings_nonneg self" and "0 \<le> s"
  shows "(\<forall>h. holdings self symbol = Some h \<longrightarrow>
            holdings (add_transaction self symbol ''sell'' s (Some p) now) symbol
              = Some (max 0 (h - s)))
       \<and> (\<forall>h. holdings self symbol = Some h \<and> s \<le> h \<longrightarrow>
            holdings (add_transaction self symbol ''sell'' s (Some p) now) symbol = Some (h - s))
       \<and> (\<forall>h. holdings self symbol = Some h \<and> h < s \<longrightarrow>
            holdings (add_transaction self symbol ''sell'' s (Some p) now) symbol = Some 0)
       \<and> (holdings self symbol = None \<longrightarrow>
            holdings (add_transaction self symbol ''sell'' s (Some p) now) symbol = Some 0)
       \<and> (\<forall>other. other \<noteq> symbol \<longrightarrow>
            holdings (add_transaction self symbol ''sell'' s (Some p) now) other
              = holdings self other)
       \<and> cash_balance (add_transaction self symbol ''sell'' s (Some p) now)
           = cash_balance self + s * p
       \<and> holdings_nonneg (add_transaction self symbol action s price_arg now)
       \<and> holdings_nonneg (update_cash_balance self b)"
proof (intro conjI allI impI)
  fix h assume "holdings self symbol = Some h"
  then show "holdings (add_transaction self symbol ''sell'' s (Some p) now) symbol
              = Some (max 0 (h - s))"
    by (simp add: sell_holdings_raw)
next
  fix h assume "holdings self symbol = Some h \<and> s \<le> h"
  then show "holdings (add_transaction self symbol ''sell'' s (Some p) now) symbol = Some (h - s)"
    by (simp add: sell_holdings_raw)
next
  fix h assume "holdings self symbol = Some h \<and> h < s"
  then show "holdings (add_transaction self symbol ''sell'' s (Some p) now) symbol = Some 0"
    by (simp add: sell_holdings_raw)
next
  assume "holdings self symbol = None"
  with assms(2) show "holdings (add_transaction self symbol ''sell'' s (Some p) now) symbol = Some 0"
    by (simp add: sell_holdings_raw)
next
  fix other :: string assume "other \<noteq> symbol"
  then show "holdings (add_transaction self symbol ''sell'' s (Some p) now) other
              = holdings self other"
    by (simp add: sell_holdings_raw)
next
  show "cash_balance (add_transaction self symbol ''sell'' s (Some p) now)
           = cash_balance self + s * p"
    by (simp add: add_transaction_cash)
next
  show "holdings_nonneg (add_transaction self symbol action s price_arg now)"
    using assms by (rule add_transaction_preserves_nonneg)
next
  show "holdings_nonneg (update_cash_balance self b)"
    using assms(1) by (simp add: update_cash_balance_def holdings_nonneg_def)
qed

text \<open>
  The sample ledger holds 5 shares of AAPL and 3 of MSFT. A sale of 2 AAPL leaves 3, a
  sale of 8 AAPL leaves 0 and adds 8 times the price of 10 to the cash; MSFT is not
  touched; a sale of a symbol that is not held leaves the entry 0.
\<close>

theorem sell_clamps_holdings_witness:
  "holdings_nonneg ledger0 \<and> (0::rat) \<le> 8 \<and> (0::rat) \<le> 2
   \<and> holdings ledger0 ''AAPL'' = Some 5
   \<and> holdings (add_transaction ledger0 ''AAPL'' ''sell'' 2 (Some 10) 0) ''AAPL'' = Some 3
   \<and> holdings (add_transaction ledger0 ''AAPL'' ''sell'' 8 (Some 10) 0) ''AAPL'' = Some 0
   \<and> holdings (add_transaction ledger0 ''AAPL'' ''sell'' 8 (Some 10) 0) ''MSFT'' = Some 3
   \<and> holdings ledger0 ''TSLA'' = None
   \<and> holdings (add_transaction ledger0 ''TSLA'' ''sell'' 2 (Some 10) 0) ''TSLA'' = Some 0
   \<and> cash_balance (add_transaction ledger0 ''AAPL'' ''sell'' 8 (Some 10) 0) = 50080
   \<and> holdings_nonneg (add_transaction ledger0 ''AAPL'' ''sell'' 8 (Some 10) 0)"
proof -
  have n: "holdings_nonneg ledger0" by (rule ledger0_nonneg)
  have s8: "(0::rat) \<le> 8" and s2: "(0::rat) \<le> 2" by simp_all
  have a: "holdings ledger0 ''AAPL'' = Some 5" by (simp add: ledger0_def)
  have m: "holdings ledger0 ''MSFT'' = Some 3" by (simp add: ledger0_def)
  have t: "holdings ledger0 ''TSLA'' = None" by (simp add: ledger0_def)
  have c: "cash_balance ledger0 = 50000" by (simp add: ledger0_def)
  note big = sell_clamps_holdings [OF n s8, of "''AAPL''" 10 0 "''sell''" "Some 10" 0]
  note small = sell_clamps_holdings [OF n s2, of "''AAPL''" 10 0 "''sell''" "Some 10" 0]
  note none = sell_clamps_holdings [OF n s2, of "''TSLA''" 10 0 "''sell''" "Some 10" 0]
  from small a have 1: "holdings (add_transaction ledger0 ''AAPL'' ''sell'' 2 (Some 10) 0) ''AAPL'' = Some 3"
    by simp
  from big a have 2: "holdings (add_transaction ledger0 ''AAPL'' ''sell'' 8 (Some 10) 0) ''AAPL'' = Some 0"
    by simp
  from big m have 3: "holdings (add_transaction ledger0 ''AAPL'' ''sell'' 8 (Some 10) 0) ''MSFT'' = Some 3"
    by simp
  from none t have 4: "holdings (add_transaction ledger0 ''TSLA'' ''sell'' 2 (Some 10) 0) ''TSLA'' = Some 0"
    by simp
  from big c have 5: "cash_balance (add_transaction ledger0 ''AAPL'' ''sell'' 8 (Some 10) 0) = 50080"
    by simp
  from big have 6: "holdings_nonneg (add_transaction ledger0 ''AAPL'' ''sell'' 8 (Some 10) 0)"
    by simp
  from n s8 s2 a 1 2 3 t 4 5 6 show ?thesis by (intro conjI)
qed

text \<open>
  Claim C6. After \<open>add_transaction(symbol, 'buy', s, p)\<close> the cash balance has decreased by
  exactly \<open>s * p\<close>, the holding of the symbol (0 when there was none) has increased by
  exactly \<open>s\<close>, and the transaction log is the old log followed by one transaction,
  whose action is \<open>buy\<close> and whose total value is \<open>s * p\<close>. This holds for all \<open>s\<close>
  and \<open>p\<close>, in particular for the non-negative ones.
\<close>

theorem buy_effect:
  "cash_balance (add_transaction self symbol ''buy'' s (Some p) now) = cash_balance self - s * p
   \<and> holdings (add_transaction self symbol ''buy'' s (Some p) now) symbol
       = Some (holdings_get self symbol + s)
   \<and> holdings_get (add_transaction self symbol ''buy'' s (Some p) now) symbol
       = holdings_get self symbol + s
   \<and> transactions (add_transaction self symbol ''buy'' s (Some p) now)
       = transactions self @ [last (transactions (add_transaction self symbol ''buy'' s (Some p) now))]
   \<and> tx_total_value (last (transactions (add_transaction self symbol ''buy'' s (Some p) now))) = s * p
   \<and> tx_action (last (transactions (add_transaction self symbol ''buy'' s (Some p) now))) = ''buy''
   \<and> tx_symbol (last (transactions (add_transaction self symbol ''buy'' s (Some p) now))) = symbol"
  by (simp add: add_transaction_def Let_def holdings_get_def)

theorem buy_effect_witness:
  "cash_balance (add_transaction ledger0 ''AAPL'' ''buy'' 2 (Some 150) 0) = 49700
   \<and> holdings (add_transaction ledger0 ''AAPL'' ''buy'' 2 (Some 150) 0) ''AAPL'' = Some 7
   \<and> tx_total_value (last (transactions (add_transaction ledger0 ''AAPL'' ''buy'' 2 (Some 150) 0))) = 300"
proof -
  have g: "holdings_get ledger0 ''AAPL'' = 5" by (simp add: holdings_get_def ledger0_def)
  have c: "cash_balance ledger0 = 50000" by (simp add: ledger0_def)
  from buy_effect [of ledger0 "''AAPL''" 2 150 0] show ?thesis using g c by simp
qed

text \<open>
  Claim C7. \<open>add_transaction(symbol, 'dividend', a, p)\<close> increases the cash balance by
  exactly the share argument \<open>a\<close>, appends one transaction whose total value is \<open>a\<close>
  (and not \<open>a * p\<close>), and leaves the whole holdings mapping as it was. This holds for
  every \<open>a\<close>, in particular for \<open>a \<ge> 0\<close>, and whether or not a price is passed.
\<close>

theorem dividend_effect:
  "cash_balance (add_transaction self symbol ''dividend'' a price_arg now) = cash_balance self + a
   \<and> holdings (add_transaction self symbol ''dividend'' a price_arg now) = holdings self
   \<and> transactions (add_transaction self symbol ''dividend'' a price_arg now)
       = transactions self @ [last (transactions (add_transaction self symbol ''dividend'' a price_arg now))]
   \<and> tx_total_value (last (transactions (add_transaction self symbol ''dividend'' a price_arg now))) = a
   \<and> tx_action (last (transactions (add_transaction self symbol ''dividend'' a price_arg now))) = ''dividend''"
  by (simp add: add_transaction_def Let_def)

text \<open>A dividend of 25 passed with a price of 3: the total value is 25, not 75.\<close>

theorem dividend_effect_witness:
  "cash_balance (add_transaction ledger0 ''AAPL'' ''dividend'' 25 (Some 3) 0) = 50025
   \<and> holdings (add_transaction ledger0 ''AAPL'' ''dividend'' 25 (Some 3) 0) = holdings ledger0
   \<and> tx_total_value (last (transactions (add_transaction ledger0 ''AAPL'' ''dividend'' 25 (Some 3) 0))) = 25"
proof -
  have c: "cash_balance ledger0 = 50000" by (simp add: ledger0_def)
  from dividend_effect [of ledger0 "''AAPL''" 25 "Some 3" 0] show ?thesis using c by simp
qed

section \<open>Spending patterns and idle funds\<close>

lemma window_sell: "get_transaction_history (ledger_with [sell_tx]) 30 (t0 + 1000000) = [sell_tx]"
  by (simp add: get_transaction_history_def ledger_with_def sell_tx_def t0_def
      timedelta_days_def microseconds_per_day_def)

lemma window_buy: "get_transaction_history (ledger_with [buy_tx]) 30 (t0 + 1000000) = [buy_tx]"
  by (simp add: get_transaction_history_def ledger_with_def buy_tx_def t0_def
      timedelta_days_def microseconds_per_day_def)

lemma pattern_buy:
  "calculate_spending_patterns (ledger_with [buy_tx]) 30 (t0 + 1000000)
     = Some \<lparr>daily_average = 300, weekly_average = 300, monthly_average = 9000\<rparr>"
  by (simp add: calculate_spending_patterns_def window_buy groupby_sum_def mean_def)
     (simp add: buy_tx_def)

lemma unused_funds_from_eq:
  "unused_funds_from b pat =
     (if MIN_INVESTMENT_AMOUNT \<le> b - monthly_of pat then
        Some \<lparr>total_balance = b, uf_monthly_average = monthly_of pat,
               unused_funds = b - monthly_of pat,
               threshold = monthly_of pat * (1 + UNUSED_BALANCE_THRESHOLD),
               available_for_investment = b - monthly_of pat\<rparr>
      else None)"
  unfolding unused_funds_from_def monthly_of_def Let_def by simp

text \<open>
  Claim C2, as the specification states it, fails: a ledger whose only transaction in the
  window is a sale has no qualifying transaction in the window, and yet the estimate is
  not \<open>None\<close> but the fallback pattern.
\<close>

theorem spending_none_counterexample:
  "filter is_spending (get_transaction_history (ledger_with [sell_tx]) 30 (t0 + 1000000)) = []
   \<and> calculate_spending_patterns (ledger_with [sell_tx]) 30 (t0 + 1000000)
       = Some \<lparr>daily_average = 50, weekly_average = 350, monthly_average = 1500\<rparr>"
proof -
  have a: "tx_action sell_tx = ''sell''" by (simp add: sell_tx_def)
  show ?thesis
    by (simp add: calculate_spending_patterns_def window_sell is_spending_def a)
qed

text \<open>
  Claim C2, amended. \<open>calculate_spending_patterns\<close> returns \<open>None\<close> exactly when no
  transaction of any action lies in the window, in particular on the empty transaction
  list. When the window holds transactions of which none is a \<open>buy\<close> or a
  \<open>dividend_reinvest\<close>, it returns the fallback pattern: daily 50, weekly 350, monthly
  1500.
\<close>

theorem spending_none_iff_window_empty:
  "(calculate_spending_patterns self days now = None
      \<longleftrightarrow> get_transaction_history self days now = [])
   \<and> (get_transaction_history self days now \<noteq> []
        \<and> filter is_spending (get_transaction_history self days now) = []
      \<longrightarrow> calculate_spending_patterns self days now
            = Some \<lparr>daily_average = 50, weekly_average = 350, monthly_average = 1500\<rparr>)
   \<and> (transactions self = [] \<longrightarrow> calculate_spending_patterns self days now = None)"
  by (simp add: calculate_spending_patterns_def Let_def is_spending_def get_transaction_history_def)

theorem spending_none_iff_window_empty_witness:
  "get_transaction_history (ledger_with [sell_tx]) 30 (t0 + 1000000) \<noteq> []
   \<and> filter is_spending (get_transaction_history (ledger_with [sell_tx]) 30 (t0 + 1000000)) = []
   \<and> calculate_spending_patterns (ledger_with [sell_tx]) 30 (t0 + 1000000)
       = Some \<lparr>daily_average = 50, weekly_average = 350, monthly_average = 1500\<rparr>
   \<and> transactions (ledger_with []) = []
   \<and> calculate_spending_patterns (ledger_with []) 30 (t0 + 1000000) = None"
proof -
  have sell_action: "tx_action sell_tx = ''sell''" by (simp add: sell_tx_def)
  have a: "get_transaction_history (ledger_with [sell_tx]) 30 (t0 + 1000000) \<noteq> []"
    by (simp add: window_sell)
  have b: "filter is_spending (get_transaction_history (ledger_with [sell_tx]) 30 (t0 + 1000000)) = []"
    using sell_action by (simp add: window_sell is_spending_def)
  have c: "transactions (ledger_with []) = []" by (simp add: ledger_with_def)
  from spending_none_iff_window_empty [of "ledger_with [sell_tx]" 30 "t0 + 1000000"]
       spending_none_iff_window_empty [of "ledger_with []" 30 "t0 + 1000000"] a b c
  show ?thesis by simp
qed

text \<open>
  Claim C9. Whenever \<open>calculate_spending_patterns\<close> returns a pattern, its monthly
  average is its daily average times 30: on the fallback constants (50 and 1500) as well
  as on the averages computed from the transactions.
\<close>

theorem monthly_is_daily_times_30:
  assumes "calculate_spending_patterns self days now = Some pat"
  shows "monthly_average pat = daily_average pat * 30"
  using assms
  by (auto simp: calculate_spending_patterns_def Let_def split: if_splits)

text \<open>A single purchase of 300 in the window: daily average 300, monthly average 9000.\<close>

theorem monthly_is_daily_times_30_witness:
  "calculate_spending_patterns (ledger_with [buy_tx]) 30 (t0 + 1000000)
     = Some \<lparr>daily_average = 300, weekly_average = 300, monthly_average = 9000\<rparr>
   \<and> monthly_average \<lparr>daily_average = 300, weekly_average = 300, monthly_average = 9000\<rparr>
     = daily_average \<lparr>daily_average = 300, weekly_average = 300, monthly_average = 9000\<rparr> * 30"
  using monthly_is_daily_times_30 [OF pattern_buy] pattern_buy by simp

text \<open>
  Claim C3. With \<open>M\<close> the monthly average of the pattern, or 1500 without a pattern,
  \<open>identify_unused_funds\<close> takes \<open>M\<close> as safety net and \<open>B - M\<close> as idle funds for the
  cash balance \<open>B\<close>. It returns \<open>None\<close> if and only if \<open>B - M\<close> is below
  \<open>MIN_INVESTMENT_AMOUNT\<close>, which is 100, and otherwise the result with total balance
  \<open>B\<close>, monthly average \<open>M\<close>, idle funds \<open>B - M\<close> and threshold
  \<open>M * (1 + UNUSED_BALANCE_THRESHOLD)\<close>.
\<close>

theorem idle_funds_gate:
  "safety_net_of pat = monthly_of pat
   \<and> (unused_funds_from b pat = None \<longleftrightarrow> b - monthly_of pat < MIN_INVESTMENT_AMOUNT)
   \<and> (\<not> b - monthly_of pat < MIN_INVESTMENT_AMOUNT \<longrightarrow>
        unused_funds_from b pat
          = Some \<lparr>total_balance = b, uf_monthly_average = monthly_of pat,
                  unused_funds = b - monthly_of pat,
                  threshold = monthly_of pat * (1 + UNUSED_BALANCE_THRESHOLD),
                  available_for_investment = b - monthly_of pat\<rparr>)
   \<and> MIN_INVESTMENT_AMOUNT = 100
   \<and> identify_unused_funds portfolio now
       = unused_funds_from (cash_balance portfolio) (calculate_spending_patterns portfolio 30 now)"
proof -
  have 1: "safety_net_of pat = monthly_of pat"
    by (simp add: safety_net_of_def monthly_of_def)
  have 2: "unused_funds_from b pat = None \<longleftrightarrow> b - monthly_of pat < MIN_INVESTMENT_AMOUNT"
    unfolding unused_funds_from_eq by (simp add: not_le)
  have 3: "\<not> b - monthly_of pat < MIN_INVESTMENT_AMOUNT \<longrightarrow>
        unused_funds_from b pat
          = Some \<lparr>total_balance = b, uf_monthly_average = monthly_of pat,
                  unused_funds = b - monthly_of pat,
                  threshold = monthly_of pat * (1 + UNUSED_BALANCE_THRESHOLD),
                  available_for_investment = b - monthly_of pat\<rparr>"
    unfolding unused_funds_from_eq by (simp add: not_less)
  have 4: "MIN_INVESTMENT_AMOUNT = 100" by (simp add: MIN_INVESTMENT_AMOUNT_def)
  have 5: "identify_unused_funds portfolio now
       = unused_funds_from (cash_balance portfolio) (calculate_spending_patterns portfolio 30 now)"
    by (simp add: identify_unused_funds_def get_cash_balance_def)
  from 1 2 3 4 5 show ?thesis by blast
qed

text \<open>
  A cash balance of 10000 with the monthly average 1500: safety net 1500, idle funds
  8500, a result is returned. A cash balance of 1599 leaves 99 and gives no result.
\<close>

theorem idle_funds_gate_witness:
  "\<not> (10000::rat) - monthly_of None < MIN_INVESTMENT_AMOUNT
   \<and> safety_net_of None = 1500
   \<and> unused_funds_from 10000 None
       = Some \<lparr>total_balance = 10000, uf_monthly_average = 1500, unused_funds = 8500,
               threshold = 2250, available_for_investment = 8500\<rparr>
   \<and> unused_funds_from 1599 None = None"
proof -
  have m: "monthly_of None = 1500" by (simp add: monthly_of_def)
  have c: "MIN_INVESTMENT_AMOUNT = 100" by (simp add: MIN_INVESTMENT_AMOUNT_def)
  have u: "UNUSED_BALANCE_THRESHOLD = 1 / 2" by (simp add: UNUSED_BALANCE_THRESHOLD_def)
  have g: "\<not> (10000::rat) - monthly_of None < MIN_INVESTMENT_AMOUNT" by (simp add: m c)
  have l: "(1599::rat) - monthly_of None < MIN_INVESTMENT_AMOUNT" by (simp add: m c)
  have a: "unused_funds_from 10000 None
       = Some \<lparr>total_balance = 10000, uf_monthly_average = monthly_of None,
                  unused_funds = 10000 - monthly_of None,
                  threshold = monthly_of None * (1 + UNUSED_BALANCE_THRESHOLD),
                  available_for_investment = 10000 - monthly_of None\<rparr>"
    using idle_funds_gate [of None 10000] g by blast
  have b: "unused_funds_from 1599 None = None"
    using idle_funds_gate [of None 1599] l by blast
  have s: "safety_net_of None = 1500"
    using idle_funds_gate [of None 0] m by simp
  show ?thesis using g s b a by (simp add: m u)
qed

section \<open>News without snippets\<close>

lemma search_without_service:
  assumes "service self = None"
  shows "search_stock_news self symbol cname days_back = []"
  using assms by (simp add: search_stock_news_def)

lemma search_with_failing_service:
  assumes s: "service self = Some svc" and f: "\<forall>rq. isl (svc rq)"
  shows "search_stock_news self symbol cname days_back = []"
proof -
  define rq where "rq = \<lparr>rq_q = symbol @ '' '' @ (case cname of None \<Rightarrow> symbol
                  | Some c \<Rightarrow> if c = [] then symbol else c) @ '' stock news'',
                rq_cx = search_engine_id self, rq_num = 10,
                rq_dateRestrict = ''d'' @ str_nat days_back, rq_sort = ''date''\<rparr>"
  from f have "isl (svc rq)" by (rule spec)
  then obtain e where e: "svc rq = Inl e" by (cases "svc rq") simp_all
  have "search_stock_news self symbol cname days_back =
          (case svc rq of Inl e \<Rightarrow> []
           | Inr result \<Rightarrow>
               (case result of None \<Rightarrow> []
                | Some items \<Rightarrow>
                    (case convert_items items of Inl e \<Rightarrow> [] | Inr news_items \<Rightarrow> news_items)))"
    unfolding search_stock_news_def Let_def rq_def using s by simp
  with e show ?thesis by simp
qed

lemma summary_without_news:
  assumes "search_stock_news self symbol cname 7 = []"
  shows "get_stock_news_summary self symbol cname = no_news_summary symbol"
  using assms by (simp add: get_stock_news_summary_def no_news_summary_def)

lemma analyze_sentiment_empty:
  "overall_sentiment (analyze_sentiment []) = ''neutral''
   \<and> average_score (analyze_sentiment []) = 0
   \<and> sa_total_articles (analyze_sentiment []) = 0"
  by (simp add: analyze_sentiment_def)

text \<open>
  Claim C8. When the search for a symbol yields no snippets, the news summary has
  sentiment \<open>neutral\<close>, score 0, \<open>news_available = False\<close> and no headlines. The
  search yields no snippets when no search service is configured and when the service
  raises. Scoring the empty snippet list gives \<open>neutral\<close> with score 0. All three
  functions are total: no input makes them raise.
\<close>

theorem no_news_is_neutral:
  "(search_stock_news self symbol cname 7 = [] \<longrightarrow>
      get_stock_news_summary self symbol cname = no_news_summary symbol)
   \<and> (service self = None \<longrightarrow> search_stock_news self symbol cname days_back = [])
   \<and> (\<forall>svc. service self = Some svc \<and> (\<forall>rq. isl (svc rq)) \<longrightarrow>
         search_stock_news self symbol cname days_back = [])
   \<and> overall_sentiment (analyze_sentiment []) = ''neutral''
   \<and> average_score (analyze_sentiment []) = 0
   \<and> sa_total_articles (analyze_sentiment []) = 0"
proof (intro conjI impI allI)
  assume "search_stock_news self symbol cname 7 = []"
  then show "get_stock_news_summary self symbol cname = no_news_summary symbol"
    by (rule summary_without_news)
next
  assume "service self = None"
  then show "search_stock_news self symbol cname days_back = []"
    by (rule search_without_service)
next
  fix svc assume a: "service self = Some svc \<and> (\<forall>rq. isl (svc rq))"
  from a have 1: "service self = Some svc" by (rule conjunct1)
  from a have 2: "\<forall>rq. isl (svc rq)" by (rule conjunct2)
  from 1 2 show "search_stock_news self symbol cname days_back = []"
    by (rule search_with_failing_service)
next
  show "overall_sentiment (analyze_sentiment []) = ''neutral''"
    using analyze_sentiment_empty by (rule conjunct1)
next
  show "average_score (analyze_sentiment []) = 0"
    using analyze_sentiment_empty by simp
next
  show "sa_total_articles (analyze_sentiment []) = 0"
    using analyze_sentiment_empty by simp
qed


theorem no_news_is_neutral_witness:
  "service no_service = None
   \<and> search_stock_news no_service ''AAPL'' (Some ''Apple Inc.'') 7 = []
   \<and> get_stock_news_summary no_service ''AAPL'' (Some ''Apple Inc.'') = no_news_summary ''AAPL''
   \<and> search_stock_news failing_service ''AAPL'' (Some ''Apple Inc.'') 7 = []
   \<and> get_stock_news_summary failing_service ''AAPL'' (Some ''Apple Inc.'') = no_news_summary ''AAPL''
   \<and> ns_sentiment (no_news_summary ''AAPL'') = ''neutral''
   \<and> ns_sentiment_score (no_news_summary ''AAPL'') = 0
   \<and> \<not> ns_news_available (no_news_summary ''AAPL'')
   \<and> ns_recent_headlines (no_news_summary ''AAPL'') = []"
proof -
  have s: "service no_service = None" by (simp add: no_service_def)
  have f: "service failing_service = Some (\<lambda>rq. Inl ServiceError)
           \<and> (\<forall>rq. isl ((\<lambda>rq. Inl ServiceError :: error + raw_item list option) rq))"
    by (simp add: failing_service_def)
  note a = no_news_is_neutral [of no_service "''AAPL''" "Some ''Apple Inc.''" 7]
  note b = no_news_is_neutral [of failing_service "''AAPL''" "Some ''Apple Inc.''" 7]
  from a have a_search: "service no_service = None \<longrightarrow>
      search_stock_news no_service ''AAPL'' (Some ''Apple Inc.'') 7 = []" by simp
  from a have a_sum: "search_stock_news no_service ''AAPL'' (Some ''Apple Inc.'') 7 = [] \<longrightarrow>
      get_stock_news_summary no_service ''AAPL'' (Some ''Apple Inc.'') = no_news_summary ''AAPL''"
    by (rule conjunct1)
  from b have b_search: "\<forall>svc. service failing_service = Some svc \<and> (\<forall>rq. isl (svc rq)) \<longrightarrow>
      search_stock_news failing_service ''AAPL'' (Some ''Apple Inc.'') 7 = []" by simp
  from b have b_sum: "search_stock_news failing_service ''AAPL'' (Some ''Apple Inc.'') 7 = [] \<longrightarrow>
      get_stock_news_summary failing_service ''AAPL'' (Some ''Apple Inc.'') = no_news_summary ''AAPL''"
    by (rule conjunct1)
  have a1: "search_stock_news no_service ''AAPL'' (Some ''Apple Inc.'') 7 = []"
    using a_search s by (rule mp)
  have a2: "get_stock_news_summary no_service ''AAPL'' (Some ''Apple Inc.'') = no_news_summary ''AAPL''"
    using a_sum a1 by (rule mp)
  have b1: "search_stock_news failing_service ''AAPL'' (Some ''Apple Inc.'') 7 = []"
    using b_search [THEN spec, of "\<lambda>rq. Inl ServiceError"] f by (rule mp)
  have b2: "get_stock_news_summary failing_service ''AAPL'' (Some ''Apple Inc.'') = no_news_summary ''AAPL''"
    using b_sum b1 by (rule mp)
  have d: "ns_sentiment (no_news_summary ''AAPL'') = ''neutral''
   \<and> ns_sentiment_score (no_news_summary ''AAPL'') = 0
   \<and> \<not> ns_news_available (no_news_summary ''AAPL'')
   \<and> ns_recent_headlines (no_news_summary ''AAPL'') = []"
    by (simp add: no_news_summary_def)
  from s a1 a2 b1 b2 d show ?thesis by (intro conjI) simp_all
qed


section \<open>The risk level of a suggestion\<close>


lemma risk_level_of_label: "risk_level_of v g r \<in> risk_labels"
  by (simp add: risk_level_of_def risk_labels_def Let_def)




section \<open>Enrichment with news\<close>

lemma without_news_enhance_suggestion:
  "without_news (enhance_suggestion lookup s) = without_news s"
  by (simp add: enhance_suggestion_def without_news_def Let_def split: sum.split)

lemma sort_key_of_without_news: "sort_key_of (without_news s) = sort_key_of s"
  by (simp add: sort_key_of_def without_news_def)

lemma sort_key_of_enhance_suggestion:
  "sort_key_of (enhance_suggestion lookup s) = sort_key_of s"
  using sort_key_of_without_news [of "enhance_suggestion lookup s"]
  by (simp add: without_news_enhance_suggestion sort_key_of_without_news)

lemma news_fields_set:
  "news_sentiment (enhance_suggestion lookup s) \<noteq> None
   \<and> news_score (enhance_suggestion lookup s) \<noteq> None
   \<and> news_available (enhance_suggestion lookup s) \<noteq> None
   \<and> recent_headlines (enhance_suggestion lookup s) \<noteq> None"
proof (cases "lookup (sg_symbol s) (company_name s)")
  case (Inl e)
  then show ?thesis by (simp add: enhance_suggestion_def)
next
  case (Inr summary)
  then show ?thesis by (simp add: enhance_suggestion_def Let_def)
qed

lemma frame_field:
  assumes "\<And>s. f (without_news s) = f s"
  shows "f (enhance_suggestion lookup s) = f s"
proof -
  have "f (enhance_suggestion lookup s) = f (without_news (enhance_suggestion lookup s))"
    by (simp add: assms)
  also have "\<dots> = f (without_news s)" by (simp add: without_news_enhance_suggestion)
  also have "\<dots> = f s" by (rule assms)
  finally show ?thesis .
qed

lemma frame_map:
  assumes "\<And>s. f (without_news s) = f s"
  shows "map f (enhance_suggestions_with_news lookup xs) = map f xs"
proof -
  have "\<And>s. f (enhance_suggestion lookup s) = f s"
    using assms by (rule frame_field)
  then show ?thesis by (simp add: enhance_suggestions_with_news_def)
qed

lemma enhance_keeps_risk_level:
  "risk_level (enhance_suggestion lookup s) = risk_level s"
  by (rule frame_field) (simp add: without_news_def)

lemma enhance_keeps_daily_return:
  "daily_return (enhance_suggestion lookup s) = daily_return s"
  by (rule frame_field) (simp add: without_news_def)

text \<open>
  Claim C10. Whatever the news lookup does for each symbol (return a summary or raise),
  \<open>enhance_suggestions_with_news\<close> returns a list of the same length whose entries
  are, in the same order, the input suggestions with only the keys \<open>news_sentiment\<close>,
  \<open>news_score\<close>, \<open>news_available\<close>, \<open>recent_headlines\<close> and
  \<open>recommendation_strength\<close> touched: every other field (symbol, price, risk level,
  daily return, region and the rest) is unchanged. The four news keys are present
  afterwards. The sort keys are unchanged, so a list sorted before the enrichment is
  sorted after it.
\<close>

theorem enhance_is_frame:
  "length (enhance_suggestions_with_news lookup xs) = length xs
   \<and> map without_news (enhance_suggestions_with_news lookup xs) = map without_news xs
   \<and> map sg_symbol (enhance_suggestions_with_news lookup xs) = map sg_symbol xs
   \<and> map sg_price (enhance_suggestions_with_news lookup xs) = map sg_price xs
   \<and> map risk_level (enhance_suggestions_with_news lookup xs) = map risk_level xs
   \<and> map daily_return (enhance_suggestions_with_news lookup xs) = map daily_return xs
   \<and> map region (enhance_suggestions_with_news lookup xs) = map region xs
   \<and> map sort_key_of (enhance_suggestions_with_news lookup xs) = map sort_key_of xs
   \<and> (sorted (map sort_key_of xs) \<longrightarrow>
        sorted (map sort_key_of (enhance_suggestions_with_news lookup xs)))
   \<and> (\<forall>s \<in> set (enhance_suggestions_with_news lookup xs).
         news_sentiment s \<noteq> None \<and> news_score s \<noteq> None
         \<and> news_available s \<noteq> None \<and> recent_headlines s \<noteq> None)"
proof (intro conjI)
  show "length (enhance_suggestions_with_news lookup xs) = length xs"
    by (simp add: enhance_suggestions_with_news_def)
  show "map without_news (enhance_suggestions_with_news lookup xs) = map without_news xs"
    by (simp add: enhance_suggestions_with_news_def without_news_enhance_suggestion)
  show "map sg_symbol (enhance_suggestions_with_news lookup xs) = map sg_symbol xs"
    by (rule frame_map) (simp add: without_news_def)
  show "map sg_price (enhance_suggestions_with_news lookup xs) = map sg_price xs"
    by (rule frame_map) (simp add: without_news_def)
  show "map risk_level (enhance_suggestions_with_news lookup xs) = map risk_level xs"
    by (rule frame_map) (simp add: without_news_def)
  show "map daily_return (enhance_suggestions_with_news lookup xs) = map daily_return xs"
    by (rule frame_map) (simp add: without_news_def)
  show "map region (enhance_suggestions_with_news lookup xs) = map region xs"
    by (rule frame_map) (simp add: without_news_def)
  show k: "map sort_key_of (enhance_suggestions_with_news lookup xs) = map sort_key_of xs"
    by (rule frame_map) (rule sort_key_of_without_news)
  show "sorted (map sort_key_of xs) \<longrightarrow>
        sorted (map sort_key_of (enhance_suggestions_with_news lookup xs))"
    by (simp add: k)
  show "\<forall>s \<in> set (enhance_suggestions_with_news lookup xs).
         news_sentiment s \<noteq> None \<and> news_score s \<noteq> None
         \<and> news_available s \<noteq> None \<and> recent_headlines s \<noteq> None"
  proof
    fix s assume "s \<in> set (enhance_suggestions_with_news lookup xs)"
    then obtain x where "s = enhance_suggestion lookup x"
      by (auto simp: enhance_suggestions_with_news_def)
    then show "news_sentiment s \<noteq> None \<and> news_score s \<noteq> None
         \<and> news_available s \<noteq> None \<and> recent_headlines s \<noteq> None"
      using news_fields_set [of lookup x] by simp
  qed
qed

lemma cx_sorted_eval:
  "map sg_symbol cx_sorted = [''MSFT'', ''AAPL'']
   \<and> map news_sentiment cx_sorted = [None, None]"
  by code_simp

text \<open>
  The two sample suggestions, sorted, and enriched once with a lookup that always
  raises and once with the lookup of an analyzer without search service.
\<close>

theorem enhance_is_frame_witness:
  "sorted (map sort_key_of cx_sorted)
   \<and> sorted (map sort_key_of (enhance_suggestions_with_news failing_lookup cx_sorted))
   \<and> sorted (map sort_key_of (enhance_suggestions_with_news (news_lookup no_service) cx_sorted))
   \<and> map sg_symbol (enhance_suggestions_with_news failing_lookup cx_sorted) = [''MSFT'', ''AAPL'']
   \<and> map sg_symbol (enhance_suggestions_with_news (news_lookup no_service) cx_sorted)
       = [''MSFT'', ''AAPL'']
   \<and> length (enhance_suggestions_with_news failing_lookup cx_sorted) = length cx_sorted"
proof -
  have s: "sorted (map sort_key_of cx_sorted)"
    unfolding cx_sorted_def by (simp only: sorted_sort_key)
  have e: "map sg_symbol cx_sorted = [''MSFT'', ''AAPL'']"
    using cx_sorted_eval by (rule conjunct1)
  note a = enhance_is_frame [of failing_lookup cx_sorted]
  note b = enhance_is_frame [of "news_lookup no_service" cx_sorted]
  from a have a0: "sorted (map sort_key_of cx_sorted) \<longrightarrow>
      sorted (map sort_key_of (enhance_suggestions_with_news failing_lookup cx_sorted))"
    by (elim conjE)
  from b have b0: "sorted (map sort_key_of cx_sorted) \<longrightarrow>
      sorted (map sort_key_of (enhance_suggestions_with_news (news_lookup no_service) cx_sorted))"
    by (elim conjE)
  from a0 s have a1: "sorted (map sort_key_of (enhance_suggestions_with_news failing_lookup cx_sorted))"
    by (rule mp)
  from b0 s have b1: "sorted (map sort_key_of (enhance_suggestions_with_news (news_lookup no_service) cx_sorted))"
    by (rule mp)
  from a have "map sg_symbol (enhance_suggestions_with_news failing_lookup cx_sorted)
                 = map sg_symbol cx_sorted"
    by (elim conjE)
  with e have a2: "map sg_symbol (enhance_suggestions_with_news failing_lookup cx_sorted)
                 = [''MSFT'', ''AAPL'']"
    by (simp only:)
  from b have "map sg_symbol (enhance_suggestions_with_news (news_lookup no_service) cx_sorted)
                 = map sg_symbol cx_sorted"
    by (elim conjE)
  then have b2: "map sg_symbol (enhance_suggestions_with_news (news_lookup no_service) cx_sorted)
       = [''MSFT'', ''AAPL'']"
    by (simp only: e)
  from a have a3: "length (enhance_suggestions_with_news failing_lookup cx_sorted) = length cx_sorted"
    by (rule conjunct1)
  from s a1 b1 a2 b2 a3 show ?thesis by (intro conjI)
qed

section \<open>The order of the suggestions\<close>

lemma sort_position_less:
  assumes "x \<noteq> NaN" and "y \<noteq> NaN"
  shows "sort_position (float_neg x) < sort_position (float_neg y) \<longleftrightarrow> float_lt y x"
  using assms by (cases x; cases y) (simp_all add: sort_position_def)

lemma sort_position_eq:
  assumes "x \<noteq> NaN" and "y \<noteq> NaN"
  shows "sort_position (float_neg x) = sort_position (float_neg y) \<longleftrightarrow> x = y"
  using assms by (cases x; cases y) (simp_all add: sort_position_def)

lemma float_lt_irrefl: "\<not> float_lt x x"
  by (cases x) simp_all

lemma key_le_iff:
  assumes a: "daily_return a \<noteq> NaN" and b: "daily_return b \<noteq> NaN"
  shows "sort_key_of a \<le> sort_key_of b \<longleftrightarrow> code_adjacent a b"
proof -
  let ?pa = "sort_position (float_neg (daily_return a))"
  let ?pb = "sort_position (float_neg (daily_return b))"
  have l: "?pa < ?pb \<longleftrightarrow> float_lt (daily_return b) (daily_return a)"
    using a b by (rule sort_position_less)
  have e: "?pa = ?pb \<longleftrightarrow> daily_return a = daily_return b"
    using a b by (rule sort_position_eq)
  have "sort_key_of a \<le> sort_key_of b \<longleftrightarrow>
          ?pa < ?pb \<or> (?pa = ?pb \<and> (region a < region b
             \<or> (region a = region b \<and> risk_level a \<le> risk_level b)))"
    unfolding sort_key_of_def less_eq_prod_simp by auto
  also have "\<dots> \<longleftrightarrow> code_adjacent a b"
    unfolding code_adjacent_def float_ge_def l e using a float_lt_irrefl [of "daily_return b"]
    by auto
  finally show ?thesis .
qed

lemma sorted_map_adjacent:
  assumes "sorted (map f xs)" and "Suc i < length xs"
  shows "f (xs ! i) \<le> f (xs ! Suc i)"
proof -
  from assms(2) have "i \<le> Suc i" "Suc i < length (map f xs)" by simp_all
  with assms(1) have "map f xs ! i \<le> map f xs ! Suc i" by (rule sorted_nth_mono)
  with assms(2) show ?thesis by simp
qed

lemma risk_level_float_label: "risk_level_float v g r \<in> risk_labels"
proof (cases v)
  case (Finite q)
  then show ?thesis by (simp add: risk_level_float_def risk_level_of_label)
qed (simp_all add: risk_level_float_def risk_labels_def)

lemma build_suggestion_risk_level:
  assumes "build_suggestion amount_usd symbol td = Inr s"
  shows "risk_level s = risk_level_float (volatility s) (is_growth_stock s) (region s)"
  using assms
  by (auto simp: build_suggestion_def Let_def split: if_splits prod.splits sum.splits)

lemma collect_suggestions_labels:
  "\<forall>s \<in> set (collect_suggestions yf amount_usd symbols). risk_level s \<in> risk_labels"
proof (induction symbols)
  case Nil
  show ?case by simp
next
  case (Cons symbol symbols)
  show ?case
  proof (cases "yf symbol")
    case (Inl e)
    with Cons show ?thesis by simp
  next
    case td: (Inr td)
    show ?thesis
    proof (cases "build_suggestion amount_usd symbol td")
      case (Inl e)
      with td Cons show ?thesis by simp
    next
      case (Inr s)
      then have "risk_level s \<in> risk_labels"
        by (simp add: build_suggestion_risk_level risk_level_float_label)
      with td Inr Cons show ?thesis by simp
    qed
  qed
qed

lemma list_sort_without_nan:
  assumes "\<forall>s \<in> set xs. daily_return s \<noteq> NaN"
  shows "list_sort unordered xs = sort_key sort_key_of xs"
proof -
  have "\<not> list_ex (\<lambda>x. float_neg (daily_return x) = NaN) xs"
  proof
    assume "list_ex (\<lambda>x. float_neg (daily_return x) = NaN) xs"
    then obtain x where x: "x \<in> set xs" and n: "float_neg (daily_return x) = NaN"
      by (auto simp: list_ex_iff)
    from n have "daily_return x = NaN" by (cases "daily_return x") simp_all
    with x assms show False by blast
  qed
  then show ?thesis by (simp add: list_sort_def)
qed

lemma suggestions_sorted_by_key:
  assumes "\<forall>s \<in> set (collect_suggestions yf amount_usd (stock_symbols include_growth_stocks)).
             daily_return s \<noteq> NaN"
  shows "sorted (map sort_key_of
           (get_investment_suggestions unordered yf na amount_usd include_growth_stocks))"
proof -
  have "map sort_key_of (get_investment_suggestions unordered yf na amount_usd include_growth_stocks)
          = map sort_key_of (sort_key sort_key_of
              (collect_suggestions yf amount_usd (stock_symbols include_growth_stocks)))"
    unfolding get_investment_suggestions_def Let_def enhance_suggestions_with_news_def
    by (simp add: sort_key_of_enhance_suggestion list_sort_without_nan [OF assms])
  then show ?thesis by (simp only: sorted_sort_key)
qed

lemma suggestions_from_collected:
  assumes "\<forall>s \<in> set (collect_suggestions yf amount_usd (stock_symbols include_growth_stocks)).
             daily_return s \<noteq> NaN"
    and "s \<in> set (get_investment_suggestions unordered yf na amount_usd include_growth_stocks)"
  shows "\<exists>x \<in> set (collect_suggestions yf amount_usd (stock_symbols include_growth_stocks)).
           s = enhance_suggestion (news_lookup na) x"
  using assms(2)
  unfolding get_investment_suggestions_def Let_def enhance_suggestions_with_news_def
  by (auto simp: list_sort_without_nan [OF assms(1)])

lemma suggestions_labels:
  assumes "\<forall>s \<in> set (collect_suggestions yf amount_usd (stock_symbols include_growth_stocks)).
             daily_return s \<noteq> NaN"
  shows "\<forall>s \<in> set (get_investment_suggestions unordered yf na amount_usd include_growth_stocks).
           risk_level s \<in> risk_labels \<and> daily_return s \<noteq> NaN"
proof
  fix s
  assume "s \<in> set (get_investment_suggestions unordered yf na amount_usd include_growth_stocks)"
  with assms obtain x
    where x: "x \<in> set (collect_suggestions yf amount_usd (stock_symbols include_growth_stocks))"
      and s: "s = enhance_suggestion (news_lookup na) x"
    using suggestions_from_collected by blast
  from x have "risk_level x \<in> risk_labels" using collect_suggestions_labels by blast
  moreover from x assms have "daily_return x \<noteq> NaN" by blast
  ultimately show "risk_level s \<in> risk_labels \<and> daily_return s \<noteq> NaN"
    using s by (simp add: enhance_keeps_risk_level enhance_keeps_daily_return)
qed

lemma cx_collected_numbers:
  "\<forall>s \<in> set (collect_suggestions cx_provider 1000 (stock_symbols False)). daily_return s \<noteq> NaN"
  by code_simp

lemma cx_collected_returns:
  "map daily_return (collect_suggestions cx_provider 1000 (stock_symbols False))
     = [Finite 0, Finite 0]"
  by code_simp

lemma cx_output_eval:
  "length cx_output = 2
   \<and> map sg_symbol cx_output = [''MSFT'', ''AAPL'']
   \<and> map daily_return cx_output = [Finite 0, Finite 0]
   \<and> map region cx_output = [''US'', ''US'']
   \<and> map risk_level cx_output = [''high'', ''low'']"
  by code_simp

text \<open>
  The special values as the loop meets them. A zero close before the last does not
  drop the symbol: AMZN is kept with an infinite daily return. A zero last close drops
  TSLA. A candidate has a NaN daily return exactly when its close before the last is
  not finite, and with such a candidate the order of the result is what the sort of
  the interpreter leaves, here the parameter \<open>unordered\<close>.
\<close>

lemma special_values_collected:
  "map (\<lambda>s. (sg_symbol s, daily_return s))
       (collect_suggestions special_provider 1000 (stock_symbols False))
     = [(''AAPL'', Finite (1 / 100)), (''MSFT'', NaN), (''GOOGL'', Finite (1 / 20)),
        (''AMZN'', PosInf)]"
  by code_simp

lemma nan_return_iff:
  assumes "build_suggestion amount_usd symbol td = Inr s"
  shows "daily_return s = NaN
           \<longleftrightarrow> (\<forall>q. bar_close (hist td ! (length (hist td) - 2)) \<noteq> Finite q)"
proof -
  let ?cur = "bar_close (last (hist td))"
  let ?prev = "bar_close (hist td ! (length (hist td) - 2))"
  from assms have d: "daily_return s = float_div (float_sub ?cur ?prev) ?prev"
    by (auto simp: build_suggestion_def Let_def split: if_splits prod.splits sum.splits)
  from assms obtain n where n: "py_int (float_div (Finite amount_usd) ?cur) = Inr n"
    by (auto simp: build_suggestion_def Let_def split: if_splits prod.splits sum.splits)
  have c: "?cur = PosInf \<or> ?cur = NegInf \<or> (\<exists>c. ?cur = Finite c \<and> c \<noteq> 0)"
  proof (cases ?cur)
    case (Finite c)
    with n show ?thesis by (cases "c = 0") (auto simp: py_int_def split: if_splits)
  next
    case NaN
    with n show ?thesis by (simp add: py_int_def)
  qed simp_all
  show ?thesis
  proof (cases ?prev)
    case (Finite p)
    with c d show ?thesis by (cases "p = 0") (auto split: if_splits)
  next
    case PosInf
    with c d show ?thesis by auto
  next
    case NegInf
    with c d show ?thesis by auto
  next
    case NaN
    with d show ?thesis by simp
  qed
qed

lemma nan_key_leaves_order_open:
  assumes "\<exists>s \<in> set (collect_suggestions yf amount_usd (stock_symbols include_growth_stocks)).
             daily_return s = NaN"
  shows "get_investment_suggestions unordered yf na amount_usd include_growth_stocks
           = enhance_suggestions_with_news (news_lookup na)
               (unordered (collect_suggestions yf amount_usd (stock_symbols include_growth_stocks)))"
proof -
  from assms obtain s
    where s: "s \<in> set (collect_suggestions yf amount_usd (stock_symbols include_growth_stocks))"
      and n: "daily_return s = NaN" by blast
  from n have "float_neg (daily_return s) = NaN" by simp
  with s have "list_ex (\<lambda>x. float_neg (daily_return x) = NaN)
                     (collect_suggestions yf amount_usd (stock_symbols include_growth_stocks))"
    unfolding list_ex_iff by blast
  then show ?thesis by (simp add: get_investment_suggestions_def list_sort_def)
qed

text \<open>
  Claim C1, as the specification states it, fails. For the sample provider the call
  returns MSFT before AAPL: both have daily return 0 and region US, MSFT has risk level
  \<open>high\<close> and AAPL has \<open>low\<close>, and \<open>high\<close> does not precede \<open>low\<close> in the order
  low, medium, high, extreme.
\<close>

theorem ranking_order_counterexample:
  "map sg_symbol cx_output = [''MSFT'', ''AAPL'']
   \<and> map daily_return cx_output = [Finite 0, Finite 0]
   \<and> map region cx_output = [''US'', ''US'']
   \<and> map risk_level cx_output = [''high'', ''low'']
   \<and> \<not> claimed_adjacent (cx_output ! 0) (cx_output ! 1)"
  by code_simp

text \<open>
  Claim C1, amended. For every call of \<open>get_investment_suggestions\<close> in which no
  candidate has a NaN daily return, the result is sorted by the key (negated daily
  return, region, risk level), the two strings compared lexicographically: of two
  adjacent suggestions \<open>a\<close> before \<open>b\<close>, \<open>a\<close> has the daily return of \<open>b\<close> or more
  (infinite returns included); if the daily returns are equal, the region of \<open>a\<close> is
  at most that of \<open>b\<close>; if the regions are equal too, the risk level of \<open>a\<close> is at
  most that of \<open>b\<close> as a string. Every risk level is one of the four labels, which as
  strings are ordered extreme, high, low, medium. Nothing is said of a call with a NaN
  daily return.
\<close>

theorem suggestions_sorted:
  assumes "\<forall>s \<in> set (collect_suggestions yf amount_usd (stock_symbols include_growth_stocks)).
             daily_return s \<noteq> NaN"
  shows "sorted (map sort_key_of
           (get_investment_suggestions unordered yf na amount_usd include_growth_stocks))
   \<and> (\<forall>i. Suc i < length (get_investment_suggestions unordered yf na amount_usd include_growth_stocks) \<longrightarrow>
         code_adjacent
           (get_investment_suggestions unordered yf na amount_usd include_growth_stocks ! i)
           (get_investment_suggestions unordered yf na amount_usd include_growth_stocks ! Suc i))
   \<and> (\<forall>s \<in> set (get_investment_suggestions unordered yf na amount_usd include_growth_stocks).
         risk_level s \<in> risk_labels \<and> daily_return s \<noteq> NaN)
   \<and> (''extreme''::string) < ''high'' \<and> (''high''::string) < ''low''
   \<and> (''low''::string) < ''medium''"
proof (intro conjI allI impI)
  show "sorted (map sort_key_of
           (get_investment_suggestions unordered yf na amount_usd include_growth_stocks))"
    using assms by (rule suggestions_sorted_by_key)
next
  fix i
  let ?out = "get_investment_suggestions unordered yf na amount_usd include_growth_stocks"
  assume i: "Suc i < length ?out"
  have srt: "sorted (map sort_key_of ?out)" using assms by (rule suggestions_sorted_by_key)
  from srt i have le: "sort_key_of (?out ! i) \<le> sort_key_of (?out ! Suc i)"
    by (rule sorted_map_adjacent)
  from i have "?out ! i \<in> set ?out" "?out ! Suc i \<in> set ?out" by simp_all
  with suggestions_labels [OF assms, of unordered na]
  have "daily_return (?out ! i) \<noteq> NaN" "daily_return (?out ! Suc i) \<noteq> NaN" by blast+
  then have "sort_key_of (?out ! i) \<le> sort_key_of (?out ! Suc i)
               \<longleftrightarrow> code_adjacent (?out ! i) (?out ! Suc i)"
    by (rule key_le_iff)
  with le show "code_adjacent (?out ! i) (?out ! Suc i)" by simp
next
  show "\<forall>s \<in> set (get_investment_suggestions unordered yf na amount_usd include_growth_stocks).
         risk_level s \<in> risk_labels \<and> daily_return s \<noteq> NaN"
    using assms by (rule suggestions_labels)
next
  show "(''extreme''::string) < ''high''" by simp
  show "(''high''::string) < ''low''" by simp
  show "(''low''::string) < ''medium''" by simp
qed

theorem suggestions_sorted_witness:
  "map daily_return (collect_suggestions cx_provider 1000 (stock_symbols False))
       = [Finite 0, Finite 0]
   \<and> Suc 0 < length (get_investment_suggestions as_given cx_provider no_service 1000 False)
   \<and> code_adjacent (get_investment_suggestions as_given cx_provider no_service 1000 False ! 0)
                    (get_investment_suggestions as_given cx_provider no_service 1000 False ! Suc 0)
   \<and> map risk_level (get_investment_suggestions as_given cx_provider no_service 1000 False)
       = [''high'', ''low'']"
proof -
  have l: "Suc 0 < length (get_investment_suggestions as_given cx_provider no_service 1000 False)"
    using cx_output_eval by (simp add: cx_output_def)
  from suggestions_sorted [OF cx_collected_numbers, of as_given no_service]
  have "\<forall>i. Suc i < length (get_investment_suggestions as_given cx_provider no_service 1000 False) \<longrightarrow>
         code_adjacent (get_investment_suggestions as_given cx_provider no_service 1000 False ! i)
                       (get_investment_suggestions as_given cx_provider no_service 1000 False ! Suc i)"
    by (elim conjE)
  then have "code_adjacent (get_investment_suggestions as_given cx_provider no_service 1000 False ! 0)
                    (get_investment_suggestions as_given cx_provider no_service 1000 False ! Suc 0)"
    using l by blast
  with l cx_output_eval cx_collected_returns show ?thesis by (simp add: cx_output_def)
qed

end
